theory Spec2Isabelle
  imports Complex_Main
begin

section \<open>Overview\<close>

text \<open>
  A model of the GeoStar energy worker: session handling (auth.ts), the vendor client
  (geostar-client.ts), the readings table (db.ts) and the two jobs (cron.ts). A function
  that awaits the network or the database takes the \<open>world\<close> and returns the new one; a
  function that can throw returns \<open>error + 'a\<close>, with \<open>Inl\<close> for what it throws. The
  definitions come first, file by file; the properties follow.
\<close>

section \<open>JavaScript values\<close>

text \<open>
  The values \<^verbatim>\<open>JSON.parse\<close> returns, with \<^verbatim>\<open>undefined\<close> added for the result of reading
  a property that is not there. A number is a rational (every finite double is one; NaN is
  written \<open>None\<close> where the code can meet it). \<open>JObj kvs\<close> lists the object's own
  properties in enumeration order, so its keys are distinct; a read takes the first entry
  of a key.
\<close>

datatype jsval =
    JUndefined
  | JNull
  | JBool bool
  | JNum rat
  | JStr string
  | JArr "jsval list"
  | JObj "(string \<times> jsval) list"

text \<open>
  What the code throws, one constructor for each message (the message's variable parts are
  the arguments), and the runtime's own exceptions.
\<close>

datatype error =
    FetchFailed string          \<comment> \<open>\<^verbatim>\<open>fetch\<close> rejected: no response\<close>
  | TypeError                   \<comment> \<open>property read or \<^verbatim>\<open>Object.keys\<close> on null or undefined\<close>
  | RangeError                  \<comment> \<open>\<^verbatim>\<open>Intl.DateTimeFormat\<close>: invalid time zone or date\<close>
  | LoginStatus int             \<comment> \<open>\<^verbatim>\<open>Login failed: expected 302, got ${status}\<close>\<close>
  | LoginNoSetCookie            \<comment> \<open>\<^verbatim>\<open>Login failed: no Set-Cookie header\<close>\<close>
  | LoginNoSessionId string     \<comment> \<open>\<^verbatim>\<open>Login failed: no sessionid in Set-Cookie. Header was: ...\<close>\<close>
  | UserInfoStatus int          \<comment> \<open>\<^verbatim>\<open>Failed to get user info: ${status}\<close>\<close>
  | UserInfoNotJson string      \<comment> \<open>\<^verbatim>\<open>Failed to parse user API response as JSON: ...\<close>\<close>
  | UserKeyMissing "string list" \<comment> \<open>\<^verbatim>\<open>Failed to get user key from user data. Available fields: ...\<close>\<close>
  | AuthError                   \<comment> \<open>\<^verbatim>\<open>new AuthError('Session expired')\<close>\<close>
  | LocationStatus int          \<comment> \<open>\<^verbatim>\<open>Failed to get location data: ${status}\<close>\<close>
  | LocationNotJson string      \<comment> \<open>\<^verbatim>\<open>Failed to parse location data as JSON: ...\<close>\<close>
  | NoGatewaysInData "string list" \<comment> \<open>\<^verbatim>\<open>No gateways found in location data. Keys: ...\<close>\<close>
  | EnergyStatus int            \<comment> \<open>\<^verbatim>\<open>Failed to get energy data: ${status}\<close>\<close>
  | EnergyNotJson string        \<comment> \<open>\<^verbatim>\<open>Failed to parse energy data as JSON: ...\<close>\<close>
  | NoGatewaysFound             \<comment> \<open>the job's \<^verbatim>\<open>'No gateways found'\<close>\<close>
  | D1TypeError jsval           \<comment> \<open>\<^verbatim>\<open>D1_TYPE_ERROR: Type '...' not supported for value '...'\<close>\<close>

text \<open>\<^verbatim>\<open>!!v\<close>: what the language counts as true.\<close>

fun truthy :: "jsval \<Rightarrow> bool" where
  "truthy JUndefined = False"
| "truthy JNull = False"
| "truthy (JBool b) = b"
| "truthy (JNum n) = (n \<noteq> 0)"
| "truthy (JStr s) = (s \<noteq> [])"
| "truthy (JArr xs) = True"
| "truthy (JObj kvs) = True"

text \<open>\<^verbatim>\<open>Array.isArray(v)\<close>.\<close>

fun isArray :: "jsval \<Rightarrow> bool" where
  "isArray (JArr xs) = True"
| "isArray v = False"

text \<open>
  \<^verbatim>\<open>data.k\<close> for a property name \<open>k\<close> that no prototype defines (all names the code
  reads are such): a TypeError on null and undefined, the own property of an object,
  undefined on anything else.
\<close>

fun get_prop :: "jsval \<Rightarrow> string \<Rightarrow> error + jsval" where
  "get_prop JUndefined k = Inl TypeError"
| "get_prop JNull k = Inl TypeError"
| "get_prop (JObj kvs) k = Inr (case map_of kvs k of None \<Rightarrow> JUndefined | Some v \<Rightarrow> v)"
| "get_prop v k = Inr JUndefined"

text \<open>\<^verbatim>\<open>data.k1 || data.k2 || ... || data.kn\<close>: the first truthy operand, else the last.\<close>

fun first_truthy :: "jsval \<Rightarrow> string list \<Rightarrow> error + jsval" where
  "first_truthy data [] = Inr JUndefined"
| "first_truthy data [k] = get_prop data k"
| "first_truthy data (k # ks) =
     (case get_prop data k of
        Inl e \<Rightarrow> Inl e
      | Inr v \<Rightarrow> if truthy v then Inr v else first_truthy data ks)"

text \<open>The decimal numeral of an array index, as a property key.\<close>

function dec :: "nat \<Rightarrow> string" where
  "dec n = (if n < 10 then [''0123456789'' ! n]
            else dec (n div 10) @ [''0123456789'' ! (n mod 10)])"
  by pat_completeness auto
termination
  by (relation "measure id") auto

declare dec.simps [simp del]

text \<open>\<^verbatim>\<open>Object.keys(data)\<close>.\<close>

fun js_keys :: "jsval \<Rightarrow> error + string list" where
  "js_keys JUndefined = Inl TypeError"
| "js_keys JNull = Inl TypeError"
| "js_keys (JObj kvs) = Inr (map fst kvs)"
| "js_keys (JArr xs) = Inr (map dec [0..<length xs])"
| "js_keys (JStr s) = Inr (map dec [0..<length s])"
| "js_keys v = Inr []"

section \<open>The vendor, the store and the clock\<close>

datatype body = NotJson string | Json jsval
  \<comment> \<open>the response text: \<^verbatim>\<open>JSON.parse\<close> throws on it, or returns the value\<close>

record response =
  status :: int
  set_cookie :: "string option"  \<comment> \<open>\<^verbatim>\<open>response.headers.get('Set-Cookie')\<close>, \<open>None\<close> for null\<close>
  body :: body

datatype outcome = Rejected string | Response response

text \<open>\<^verbatim>\<open>response.ok\<close>.\<close>

definition ok :: "response \<Rightarrow> bool" where
  "ok r = (200 \<le> status r \<and> status r \<le> 299)"

record Session =
  sessionId :: string
  userKey :: string
  createdAt :: int

record AuthResult =
  session :: Session
  fresh :: bool

record EnergyReading =
  timestamp :: jsval
  total_heat_1 :: jsval
  total_heat_2 :: jsval
  total_cool_1 :: jsval
  total_cool_2 :: jsval
  total_electric_heat :: jsval
  total_fan_only :: jsval
  total_loop_pump :: jsval
  total_dehumidification :: jsval
  runtime_heat_1 :: jsval
  runtime_heat_2 :: jsval
  runtime_cool_1 :: jsval
  runtime_cool_2 :: jsval
  runtime_electric_heat :: jsval
  runtime_fan_only :: jsval
  runtime_dehumidification :: jsval
  total_power :: jsval

text \<open>
  Everything outside the repository that a job touches. \<open>net\<close> holds the vendor's answers
  to the \<^verbatim>\<open>fetch\<close> calls still to come, in order (a theorem about every \<open>world\<close> is about
  every behaviour of the vendor). \<open>sessions\<close> is the single row of the \<^verbatim>\<open>sessions\<close> table,
  \<open>energy_readings\<close> the table of that name by its unique key (gateway_id, timestamp),
  the key and the row as the table stores them. Reads and writes of the tables succeed.
  \<open>now\<close> is \<^verbatim>\<open>Date.now()\<close>, the same at every reading within one call. The next five
  fields are library functions of the runtime whose results the code only passes on; the
  last two are the conversions of the database engine between text and numbers.
\<close>

record world =
  net :: "outcome list"
  sessions :: "Session option"
  energy_readings :: "jsval \<times> jsval \<Rightarrow> EnergyReading option"
  now :: int
  js_ToString :: "jsval \<Rightarrow> string"
    \<comment> \<open>\<^verbatim>\<open>String(v)\<close> for a \<open>v\<close> that is not a string\<close>
  js_StringToNumber :: "string \<Rightarrow> rat option"
    \<comment> \<open>the number a string converts to, \<open>None\<close> for NaN\<close>
  js_formatDate :: "string \<Rightarrow> int \<Rightarrow> error + string"
    \<comment> \<open>\<^verbatim>\<open>new Intl.DateTimeFormat('en-CA', {timeZone}).format(new Date(ms))\<close>\<close>
  js_formatOffset :: "string \<Rightarrow> string \<Rightarrow> error + string"
    \<comment> \<open>the \<^verbatim>\<open>en-GB\<close>, \<^verbatim>\<open>longOffset\<close> format of noon UTC of a date, in a time zone\<close>
  js_midnightUTC :: "string \<Rightarrow> int option"
    \<comment> \<open>\<^verbatim>\<open>new Date(`${d}T00:00:00Z`).getTime()\<close>, \<open>None\<close> for NaN\<close>
  sql_number :: "string \<Rightarrow> rat option"
    \<comment> \<open>the number a text is stored as in a numeric column, \<open>None\<close> if it is no numeral\<close>
  sql_text :: "rat \<Rightarrow> string"
    \<comment> \<open>the text a number is stored as in a text column\<close>

text \<open>\<^verbatim>\<open>await fetch(...)\<close>: the vendor's next answer. The request is not looked at.\<close>

definition fetch :: "world \<Rightarrow> (error + response) \<times> world" where
  "fetch w =
     (case net w of
        [] \<Rightarrow> (Inl (FetchFailed []), w)
      | Rejected m # rest \<Rightarrow> (Inl (FetchFailed m), w\<lparr>net := rest\<rparr>)
      | Response r # rest \<Rightarrow> (Inr r, w\<lparr>net := rest\<rparr>))"

text \<open>\<^verbatim>\<open>String(v)\<close>.\<close>

definition js_String :: "world \<Rightarrow> jsval \<Rightarrow> string" where
  "js_String w v = (case v of JStr s \<Rightarrow> s | _ \<Rightarrow> js_ToString w v)"

section \<open>auth.ts\<close>

definition SESSION_MAX_AGE_MS :: int where
  "SESSION_MAX_AGE_MS = 12 * 60 * 60 * 1000"

definition user_key_fields :: "string list" where
  "user_key_fields =
     [''awlUserKey'', ''awluserkey'', ''auk'', ''id'', ''user_id'', ''userId'']"

text \<open>\<^verbatim>\<open>setCookie.match(/sessionid=([^;]+)/)\<close>: the first group of the leftmost match.\<close>

fun match_sessionid :: "string \<Rightarrow> string option" where
  "match_sessionid [] = None"
| "match_sessionid (c # cs) =
     (if take 10 (c # cs) = ''sessionid='' \<and>
         takeWhile (\<lambda>x. x \<noteq> CHR '';'') (drop 10 (c # cs)) \<noteq> []
      then Some (takeWhile (\<lambda>x. x \<noteq> CHR '';'') (drop 10 (c # cs)))
      else match_sessionid cs)"

definition getUserKey :: "string \<Rightarrow> world \<Rightarrow> (error + string) \<times> world" where
  "getUserKey sid w =
     (case fetch w of
        (Inl e, w1) \<Rightarrow> (Inl e, w1)
      | (Inr response, w1) \<Rightarrow>
          if \<not> ok response then (Inl (UserInfoStatus (status response)), w1)
          else
            (case body response of
               NotJson text \<Rightarrow> (Inl (UserInfoNotJson text), w1)
             | Json data \<Rightarrow>
                 (case first_truthy data user_key_fields of
                    Inl e \<Rightarrow> (Inl e, w1)
                  | Inr k \<Rightarrow>
                      if \<not> truthy k then
                        (case js_keys data of
                           Inl e \<Rightarrow> (Inl e, w1)
                         | Inr ks \<Rightarrow> (Inl (UserKeyMissing ks), w1))
                      else (Inr (js_String w1 k), w1))))"

definition login :: "string \<Rightarrow> string \<Rightarrow> world \<Rightarrow> (error + Session) \<times> world" where
  "login email password w =
     (case fetch w of
        (Inl e, w1) \<Rightarrow> (Inl e, w1)
      | (Inr response, w1) \<Rightarrow>
          if status response \<noteq> 302 then (Inl (LoginStatus (status response)), w1)
          else
            (case set_cookie response of
               None \<Rightarrow> (Inl LoginNoSetCookie, w1)
             | Some setCookie \<Rightarrow>
                 if setCookie = [] then (Inl LoginNoSetCookie, w1)
                 else
                   (case match_sessionid setCookie of
                      None \<Rightarrow> (Inl (LoginNoSessionId setCookie), w1)
                    | Some sid \<Rightarrow>
                        (case getUserKey sid w1 of
                           (Inl e, w2) \<Rightarrow> (Inl e, w2)
                         | (Inr k, w2) \<Rightarrow>
                             (Inr \<lparr>sessionId = sid, userKey = k, createdAt = now w2\<rparr>,
                              w2)))))"

definition getStoredSession :: "world \<Rightarrow> Session option" where
  "getStoredSession w = sessions w"

definition storeSession :: "world \<Rightarrow> Session \<Rightarrow> world" where
  "storeSession w s = w\<lparr>sessions := Some s\<rparr>"

definition isSessionExpired :: "world \<Rightarrow> Session \<Rightarrow> bool" where
  "isSessionExpired w s = (now w - createdAt s > SESSION_MAX_AGE_MS)"

text \<open>The body of \<^verbatim>\<open>validateSession\<close>'s \<^verbatim>\<open>try\<close>, and the function with its \<^verbatim>\<open>catch\<close>.\<close>

definition validateSession_try :: "Session \<Rightarrow> world \<Rightarrow> (error + bool) \<times> world" where
  "validateSession_try s w =
     (case fetch w of
        (Inl e, w1) \<Rightarrow> (Inl e, w1)
      | (Inr response, w1) \<Rightarrow>
          if \<not> ok response then (Inr False, w1)
          else
            (case body response of
               NotJson text \<Rightarrow> (Inr False, w1)
             | Json data \<Rightarrow>
                 (case get_prop data ''err'' of
                    Inl e \<Rightarrow> (Inl e, w1)
                  | Inr err \<Rightarrow>
                      if truthy err \<and> err \<noteq> JStr [] then (Inr False, w1)
                      else
                        (case first_truthy data user_key_fields of
                           Inl e \<Rightarrow> (Inl e, w1)
                         | Inr k \<Rightarrow> (Inr (truthy k), w1)))))"

definition validateSession :: "Session \<Rightarrow> world \<Rightarrow> bool \<times> world" where
  "validateSession s w =
     (case validateSession_try s w of
        (Inl e, w1) \<Rightarrow> (False, w1)
      | (Inr b, w1) \<Rightarrow> (b, w1))"

definition getValidSession ::
  "string \<Rightarrow> string \<Rightarrow> world \<Rightarrow> (error + AuthResult) \<times> world" where
  "getValidSession email password w =
     (let (reuse, w1) =
        (case getStoredSession w of
           None \<Rightarrow> (None, w)
         | Some stored \<Rightarrow>
             if \<not> isSessionExpired w stored then
               (case validateSession stored w of
                  (True, w1) \<Rightarrow> (Some stored, w1)
                | (False, w1) \<Rightarrow> (None, w1))
             else (None, w))
      in case reuse of
           Some stored \<Rightarrow> (Inr \<lparr>session = stored, fresh = False\<rparr>, w1)
         | None \<Rightarrow>
             (case login email password w1 of
                (Inl e, w2) \<Rightarrow> (Inl e, w2)
              | (Inr newSession, w2) \<Rightarrow>
                  (Inr \<lparr>session = newSession, fresh = True\<rparr>, storeSession w2 newSession)))"

section \<open>geostar-client.ts\<close>

record Gateway =
  gwid :: jsval
  name :: jsval
  location :: jsval

text \<open>\<^verbatim>\<open>obj.k\<close> where \<open>obj\<close> is known not to be null or undefined.\<close>

definition js_get :: "jsval \<Rightarrow> string \<Rightarrow> jsval" where
  "js_get obj k = (case get_prop obj k of Inl e \<Rightarrow> JUndefined | Inr v \<Rightarrow> v)"

text \<open>\<^verbatim>\<open>a || b\<close> and \<^verbatim>\<open>a ?? b\<close>.\<close>

definition js_or :: "jsval \<Rightarrow> jsval \<Rightarrow> jsval" where
  "js_or a b = (if truthy a then a else b)"

definition js_coalesce :: "jsval \<Rightarrow> jsval \<Rightarrow> jsval" where
  "js_coalesce a b = (if a = JUndefined \<or> a = JNull then b else a)"

text \<open>\<^verbatim>\<open>typeof v === 'string'\<close>.\<close>

fun isString :: "jsval \<Rightarrow> bool" where
  "isString (JStr s) = True"
| "isString v = False"

text \<open>\<^verbatim>\<open>xs.map(f)\<close> with a callback that may throw: the first exception ends the map.\<close>

fun map_throwing :: "('a \<Rightarrow> error + 'b) \<Rightarrow> 'a list \<Rightarrow> error + 'b list" where
  "map_throwing f [] = Inr []"
| "map_throwing f (x # xs) =
     (case f x of
        Inl e \<Rightarrow> Inl e
      | Inr y \<Rightarrow> (case map_throwing f xs of Inl e \<Rightarrow> Inl e | Inr ys \<Rightarrow> Inr (y # ys)))"

text \<open>The callback of the map over \<^verbatim>\<open>data.gateways\<close>.\<close>

definition listed_gateway :: "jsval \<Rightarrow> error + Gateway" where
  "listed_gateway gw =
     (case get_prop gw ''gwid'' of
        Inl e \<Rightarrow> Inl e
      | Inr g \<Rightarrow>
          Inr \<lparr>gwid = g,
               name = js_or (js_get gw ''description'') (js_get gw ''gwid''),
               location = js_get gw ''location''\<rparr>)"

text \<open>The gateway \<^verbatim>\<open>findGateways\<close> pushes for an object that has a string \<^verbatim>\<open>gwid\<close>.\<close>

definition found_gateway :: "jsval \<Rightarrow> Gateway" where
  "found_gateway gw =
     \<lparr>gwid = js_get gw ''gwid'',
      name = js_or (js_get gw ''description'') (js_or (js_get gw ''name'') (js_get gw ''gwid'')),
      location = js_get gw ''location''\<rparr>"

text \<open>
  The inner function \<^verbatim>\<open>findGateways\<close>; the list it returns is what the calls push, in
  order. An array is an object with no \<^verbatim>\<open>gwid\<close> of its own whose entries are its
  elements.
\<close>

fun findGateways :: "jsval \<Rightarrow> Gateway list" where
  "findGateways (JObj kvs) =
     (if isString (js_get (JObj kvs) ''gwid'') then [found_gateway (JObj kvs)] else []) @
     concat (map (\<lambda>(key, value). findGateways value) kvs)"
| "findGateways (JArr xs) = concat (map findGateways xs)"
| "findGateways v = []"

definition getGateways :: "Session \<Rightarrow> world \<Rightarrow> (error + Gateway list) \<times> world" where
  "getGateways s w =
     (case fetch w of
        (Inl e, w1) \<Rightarrow> (Inl e, w1)
      | (Inr response, w1) \<Rightarrow>
          if \<not> ok response then
            (if status response = 401 \<or> status response = 403 then (Inl AuthError, w1)
             else (Inl (LocationStatus (status response)), w1))
          else
            (case body response of
               NotJson text \<Rightarrow> (Inl (LocationNotJson text), w1)
             | Json data \<Rightarrow>
                 (case js_keys data of
                    Inl e \<Rightarrow> (Inl e, w1)
                  | Inr ks \<Rightarrow>
                      if truthy (js_get data ''gateways'') \<and> isArray (js_get data ''gateways'')
                      then
                        (case js_get data ''gateways'' of
                           JArr gws \<Rightarrow> (map_throwing listed_gateway gws, w1)
                         | _ \<Rightarrow> (Inr [], w1))
                      else if length (findGateways data) > 0
                      then (Inr (findGateways data), w1)
                      else (Inl (NoGatewaysInData ks), w1))))"

text \<open>
  \<^verbatim>\<open>v[i]\<close> for a \<open>v\<close> that is not null or undefined (the code indexes arrays and the value of
  \<^verbatim>\<open>rows[i] || []\<close>): an element, a property whose key is the numeral, a character.
\<close>

fun js_index :: "jsval \<Rightarrow> nat \<Rightarrow> jsval" where
  "js_index (JArr xs) i = (if i < length xs then xs ! i else JUndefined)"
| "js_index (JObj kvs) i = js_get (JObj kvs) (dec i)"
| "js_index (JStr s) i = (if i < length s then JStr [s ! i] else JUndefined)"
| "js_index v i = JUndefined"

text \<open>
  \<^verbatim>\<open>columns.forEach((col, i) => colIndex.set(col, i))\<close>: a later column of the same name
  replaces an earlier one.
\<close>

definition colIndex :: "jsval list \<Rightarrow> jsval \<Rightarrow> nat option" where
  "colIndex columns =
     fold (\<lambda>(i, col) m. m(col \<mapsto> i)) (enumerate 0 columns) Map.empty"

definition getVal :: "jsval list \<Rightarrow> jsval \<Rightarrow> string \<Rightarrow> jsval" where
  "getVal columns row colName =
     (case colIndex columns (JStr colName) of
        Some idx \<Rightarrow> js_coalesce (js_index row idx) (JNum 0)
      | None \<Rightarrow> JNum 0)"

text \<open>The callback of \<^verbatim>\<open>index.map\<close>.\<close>

definition parse_row :: "jsval list \<Rightarrow> jsval \<Rightarrow> jsval \<times> nat \<Rightarrow> EnergyReading" where
  "parse_row columns rows = (\<lambda>(ts, i).
     let row = js_or (js_index rows i) (JArr []) in
     \<lparr>timestamp = ts,
      total_heat_1 = getVal columns row ''total_heat_1'',
      total_heat_2 = getVal columns row ''total_heat_2'',
      total_cool_1 = getVal columns row ''total_cool_1'',
      total_cool_2 = getVal columns row ''total_cool_2'',
      total_electric_heat = getVal columns row ''total_electric_heat'',
      total_fan_only = getVal columns row ''total_fan_only'',
      total_loop_pump = getVal columns row ''total_loop_pump'',
      total_dehumidification = getVal columns row ''total_dehumidification'',
      runtime_heat_1 = getVal columns row ''runtime_heat_1'',
      runtime_heat_2 = getVal columns row ''runtime_heat_2'',
      runtime_cool_1 = getVal columns row ''runtime_cool_1'',
      runtime_cool_2 = getVal columns row ''runtime_cool_2'',
      runtime_electric_heat = getVal columns row ''runtime_electric_heat'',
      runtime_fan_only = getVal columns row ''runtime_fan_only'',
      runtime_dehumidification = getVal columns row ''runtime_dehumidification'',
      total_power = getVal columns row ''total_power''\<rparr>)"

definition parseEnergyResponse :: "jsval \<Rightarrow> error + EnergyReading list" where
  "parseEnergyResponse data =
     (case get_prop data ''columns'' of
        Inl e \<Rightarrow> Inl e
      | Inr columns \<Rightarrow>
          let index = js_get data ''index''; rows = js_get data ''data'' in
          if \<not> truthy columns \<or> \<not> isArray columns then Inr []
          else if \<not> truthy index \<or> \<not> isArray index then Inr []
          else if \<not> truthy rows \<or> \<not> isArray rows then Inr []
          else
            (case (columns, index) of
               (JArr cols, JArr idx) \<Rightarrow>
                 Inr (map (parse_row cols rows) (zip idx [0..<length idx]))
             | _ \<Rightarrow> Inr []))"

definition getEnergyData ::
  "Session \<Rightarrow> jsval \<Rightarrow> string \<Rightarrow> string \<Rightarrow> string \<Rightarrow> string \<Rightarrow> world \<Rightarrow>
   (error + EnergyReading list) \<times> world" where
  "getEnergyData s gw startDate endDate freq timezone w =
     (case fetch w of
        (Inl e, w1) \<Rightarrow> (Inl e, w1)
      | (Inr response, w1) \<Rightarrow>
          if \<not> ok response then
            (if status response = 401 \<or> status response = 403 then (Inl AuthError, w1)
             else (Inl (EnergyStatus (status response)), w1))
          else
            (case body response of
               NotJson text \<Rightarrow> (Inl (EnergyNotJson text), w1)
             | Json data \<Rightarrow>
                 (case js_keys data of
                    Inl e \<Rightarrow> (Inl e, w1)
                  | Inr ks \<Rightarrow> (parseEnergyResponse data, w1))))"

section \<open>db.ts\<close>

definition digit_val :: "char \<Rightarrow> nat option" where
  "digit_val = map_of (zip ''0123456789'' [0, 1, 2, 3, 4, 5, 6, 7, 8, 9])"

text \<open>
  \<^verbatim>\<open>formatted.match(/GMT([+-])(\d{2}):(\d{2})/)\<close>: the sign and the two numbers of the
  leftmost match, the numbers as \<^verbatim>\<open>parseInt\<close> reads them.
\<close>

definition offset_here :: "string \<Rightarrow> (bool \<times> nat \<times> nat) option" where
  "offset_here s =
     (case s of
        g # m # t # sg # h1 # h2 # col # m1 # m2 # rest \<Rightarrow>
          if [g, m, t] = ''GMT'' \<and> (sg = CHR ''+'' \<or> sg = CHR ''-'') \<and> col = CHR '':''
          then
            (case (digit_val h1, digit_val h2, digit_val m1, digit_val m2) of
               (Some a, Some b, Some c, Some d) \<Rightarrow>
                 Some (sg = CHR ''+'', 10 * a + b, 10 * c + d)
             | _ \<Rightarrow> None)
          else None
      | _ \<Rightarrow> None)"

fun match_offset :: "string \<Rightarrow> (bool \<times> nat \<times> nat) option" where
  "match_offset [] = None"
| "match_offset (c # cs) =
     (case offset_here (c # cs) of Some r \<Rightarrow> Some r | None \<Rightarrow> match_offset cs)"

text \<open>
  \<^verbatim>\<open>getTimezoneOffsetMs\<close>, the function of db.ts. The module does not export it: its
  callers are the query functions of db.ts.
\<close>

definition getTimezoneOffsetMs :: "world \<Rightarrow> string \<Rightarrow> string \<Rightarrow> error + int" where
  "getTimezoneOffsetMs w timezone dateStr =
     (case js_formatOffset w timezone dateStr of
        Inl e \<Rightarrow> Inl e
      | Inr formatted \<Rightarrow>
          (case match_offset formatted of
             None \<Rightarrow> Inr 0
           | Some (positive, hours, minutes) \<Rightarrow>
               Inr ((if positive then 1 else -1) * (int hours * 3600000 + int minutes * 60000))))"

record InsertResult =
  inserted :: nat
  skipped :: nat

text \<open>
  \<^verbatim>\<open>stmt.bind(v1, ..., vn)\<close> checks each value in turn: D1 takes null, a number and a
  string as they are, a boolean as 1 or 0 and an array of bytes as a blob; for undefined
  and for any other object it throws.
\<close>

fun is_byte :: "jsval \<Rightarrow> bool" where
  "is_byte (JNum n) = (0 \<le> n \<and> n < 256)"
| "is_byte v = False"

fun d1_bind :: "jsval \<Rightarrow> error + jsval" where
  "d1_bind JUndefined = Inl (D1TypeError JUndefined)"
| "d1_bind JNull = Inr JNull"
| "d1_bind (JBool b) = Inr (JNum (if b then 1 else 0))"
| "d1_bind (JNum n) = Inr (JNum n)"
| "d1_bind (JStr s) = Inr (JStr s)"
| "d1_bind (JArr xs) =
     (if list_all is_byte xs then Inr (JArr xs) else Inl (D1TypeError (JArr xs)))"
| "d1_bind (JObj kvs) = Inl (D1TypeError (JObj kvs))"

text \<open>
  The statement of \<^verbatim>\<open>insertEnergyReadings\<close> bound to one reading: its eighteen values, in
  the order of the call.
\<close>

definition bind_reading :: "jsval \<Rightarrow> EnergyReading \<Rightarrow> error + jsval list" where
  "bind_reading gatewayId r =
     map_throwing d1_bind
       [gatewayId, timestamp r,
        total_heat_1 r, total_heat_2 r, total_cool_1 r, total_cool_2 r,
        total_electric_heat r, total_fan_only r, total_loop_pump r, total_dehumidification r,
        runtime_heat_1 r, runtime_heat_2 r, runtime_cool_1 r, runtime_cool_2 r,
        runtime_electric_heat r, runtime_fan_only r, runtime_dehumidification r,
        total_power r]"

text \<open>
  What a column of schema.sql stores of a value: \<^verbatim>\<open>gateway_id TEXT\<close> turns a number into
  text; \<^verbatim>\<open>timestamp INTEGER\<close> and the \<^verbatim>\<open>REAL\<close> columns turn a text that is a numeral into
  the number. Two numbers are the same key when they are equal, two texts when they are
  the same text.
\<close>

definition text_column :: "world \<Rightarrow> jsval \<Rightarrow> jsval" where
  "text_column w v = (case v of JNum n \<Rightarrow> JStr (sql_text w n) | _ \<Rightarrow> v)"

definition numeric_column :: "world \<Rightarrow> jsval \<Rightarrow> jsval" where
  "numeric_column w v =
     (case v of
        JStr s \<Rightarrow> (case sql_number w s of Some n \<Rightarrow> JNum n | None \<Rightarrow> JStr s)
      | _ \<Rightarrow> v)"

text \<open>The \<^verbatim>\<open>gateway_id\<close> and the other columns of the row that the values of a statement make.\<close>

definition stored_row :: "world \<Rightarrow> jsval list \<Rightarrow> jsval \<times> EnergyReading" where
  "stored_row w vs =
     (text_column w (vs ! 0),
      \<lparr>timestamp = numeric_column w (vs ! 1),
       total_heat_1 = numeric_column w (vs ! 2),
       total_heat_2 = numeric_column w (vs ! 3),
       total_cool_1 = numeric_column w (vs ! 4),
       total_cool_2 = numeric_column w (vs ! 5),
       total_electric_heat = numeric_column w (vs ! 6),
       total_fan_only = numeric_column w (vs ! 7),
       total_loop_pump = numeric_column w (vs ! 8),
       total_dehumidification = numeric_column w (vs ! 9),
       runtime_heat_1 = numeric_column w (vs ! 10),
       runtime_heat_2 = numeric_column w (vs ! 11),
       runtime_cool_1 = numeric_column w (vs ! 12),
       runtime_cool_2 = numeric_column w (vs ! 13),
       runtime_electric_heat = numeric_column w (vs ! 14),
       runtime_fan_only = numeric_column w (vs ! 15),
       runtime_dehumidification = numeric_column w (vs ! 16),
       total_power = numeric_column w (vs ! 17)\<rparr>)"

text \<open>
  The statement \<^verbatim>\<open>INSERT OR IGNORE INTO energy_readings (gateway_id, timestamp, ...)\<close> with
  its values: a row whose \<^verbatim>\<open>gateway_id\<close> or \<^verbatim>\<open>timestamp\<close> is null breaks \<^verbatim>\<open>NOT NULL\<close> and
  is skipped; with a row of that (gateway_id, timestamp) in the table nothing changes;
  otherwise the row is added. The result is \<^verbatim>\<open>meta.changes\<close> and the table.
\<close>

definition insert_or_ignore ::
  "world \<Rightarrow> jsval list \<Rightarrow> (jsval \<times> jsval \<Rightarrow> EnergyReading option) \<Rightarrow>
   nat \<times> (jsval \<times> jsval \<Rightarrow> EnergyReading option)" where
  "insert_or_ignore w vs tab =
     (case stored_row w vs of
        (gateway_id, row) \<Rightarrow>
          if gateway_id = JNull \<or> timestamp row = JNull then (0, tab)
          else
            (case tab (gateway_id, timestamp row) of
               Some old \<Rightarrow> (0, tab)
             | None \<Rightarrow> (1, tab((gateway_id, timestamp row) \<mapsto> row))))"

text \<open>\<^verbatim>\<open>db.batch(statements)\<close>: the statements run in order; one result each.\<close>

fun batch ::
  "world \<Rightarrow> jsval list list \<Rightarrow> (jsval \<times> jsval \<Rightarrow> EnergyReading option) \<Rightarrow>
   nat list \<times> (jsval \<times> jsval \<Rightarrow> EnergyReading option)" where
  "batch w [] tab = ([], tab)"
| "batch w (vs # statements) tab =
     (case insert_or_ignore w vs tab of
        (changes, tab1) \<Rightarrow>
          (case batch w statements tab1 of (results, tab2) \<Rightarrow> (changes # results, tab2)))"

text \<open>
  \<^verbatim>\<open>insertEnergyReadings(db, gatewayId, readings)\<close> as db.ts declares it. \<open>surplus\<close> holds
  the arguments a caller passes after \<open>readings\<close>: the function has no parameter for them
  and its body does not read them.
\<close>

definition insertEnergyReadings ::
  "world \<Rightarrow> jsval \<Rightarrow> EnergyReading list \<Rightarrow> jsval list \<Rightarrow>
   (error + InsertResult) \<times> world" where
  "insertEnergyReadings w gatewayId readings surplus =
     (if length readings = 0 then (Inr \<lparr>inserted = 0, skipped = 0\<rparr>, w)
      else
        (case map_throwing (bind_reading gatewayId) readings of
           Inl e \<Rightarrow> (Inl e, w)
         | Inr statements \<Rightarrow>
             (case batch w statements (energy_readings w) of
                (results, tab) \<Rightarrow>
                  let n = length (filter (\<lambda>changes. changes > 0) results) in
                  (Inr \<lparr>inserted = n, skipped = length readings - n\<rparr>,
                   w\<lparr>energy_readings := tab\<rparr>))))"

section \<open>cron.ts\<close>

text \<open>
  The repository holds two versions of cron.ts. The model follows the later one, in which
  \<^verbatim>\<open>runDailyFetch\<close> splits the readings at midnight and \<^verbatim>\<open>backfillData\<close> takes an
  \<^verbatim>\<open>override\<close> flag; both pass a fourth argument to \<^verbatim>\<open>insertEnergyReadings\<close>. In the two
  result records \<open>gw_error\<close> and \<open>error\<close> hold the error whose message the code stores.
\<close>

text \<open>
  cron.ts imports \<^verbatim>\<open>getTimezoneOffsetMs\<close> from db.ts, which has no export of that name:
  in cron.ts the name is undefined, and the call \<^verbatim>\<open>getTimezoneOffsetMs(timezone, end)\<close>
  throws a TypeError.
\<close>

definition imported_getTimezoneOffsetMs :: "world \<Rightarrow> string \<Rightarrow> string \<Rightarrow> error + int" where
  "imported_getTimezoneOffsetMs w timezone dateStr = Inl TypeError"

record GatewayResult =
  gw_gwid :: jsval
  gw_inserted :: nat
  gw_skipped :: nat
  gw_error :: "error option"

record CronResult =
  success :: bool
  gateways :: "GatewayResult list"
  error :: "error option"
  loginRefreshed :: bool

text \<open>
  The number a value converts to in a comparison with a number (\<open>None\<close> is NaN), and
  \<^verbatim>\<open>a < b\<close>, \<^verbatim>\<open>a >= b\<close> for a number \<open>b\<close>: both are false when either side is NaN.
\<close>

definition to_number :: "world \<Rightarrow> jsval \<Rightarrow> rat option" where
  "to_number w v =
     (case v of
        JNum n \<Rightarrow> Some n
      | JUndefined \<Rightarrow> None
      | JNull \<Rightarrow> Some 0
      | JBool b \<Rightarrow> Some (if b then 1 else 0)
      | _ \<Rightarrow> js_StringToNumber w (js_String w v))"

definition js_lt :: "world \<Rightarrow> jsval \<Rightarrow> int option \<Rightarrow> bool" where
  "js_lt w a b =
     (case (to_number w a, b) of (Some x, Some y) \<Rightarrow> x < of_int y | _ \<Rightarrow> False)"

definition js_ge :: "world \<Rightarrow> jsval \<Rightarrow> int option \<Rightarrow> bool" where
  "js_ge w a b =
     (case (to_number w a, b) of (Some x, Some y) \<Rightarrow> x \<ge> of_int y | _ \<Rightarrow> False)"

definition getYesterdayDateRange :: "world \<Rightarrow> string \<Rightarrow> error + string \<times> string" where
  "getYesterdayDateRange w timezone =
     (case js_formatDate w timezone (now w) of
        Inl e \<Rightarrow> Inl e
      | Inr today \<Rightarrow>
          (case js_formatDate w timezone (now w - 24 * 60 * 60 * 1000) of
             Inl e \<Rightarrow> Inl e
           | Inr yesterday \<Rightarrow> Inr (yesterday, today)))"

text \<open>
  The \<^verbatim>\<open>try\<close> around \<^verbatim>\<open>getGateways\<close>, the same in both jobs: what it throws or the session
  and the gateways it leaves, with \<^verbatim>\<open>result\<close> and the world as they are by then.
\<close>

definition list_gateways ::
  "string \<Rightarrow> string \<Rightarrow> Session \<Rightarrow> CronResult \<Rightarrow> world \<Rightarrow>
   (error + Session \<times> Gateway list) \<times> CronResult \<times> world" where
  "list_gateways email password s result w =
     (case getGateways s w of
        (Inr gws, w1) \<Rightarrow> (Inr (s, gws), result, w1)
      | (Inl e, w1) \<Rightarrow>
          if e = AuthError then
            (case login email password w1 of
               (Inl e2, w2) \<Rightarrow> (Inl e2, result, w2)
             | (Inr s2, w2) \<Rightarrow>
                 let w3 = storeSession w2 s2;
                     result2 = result\<lparr>loginRefreshed := True\<rparr>
                 in (case getGateways s2 w3 of
                       (Inl e3, w4) \<Rightarrow> (Inl e3, result2, w4)
                     | (Inr gws, w4) \<Rightarrow> (Inr (s2, gws), result2, w4)))
          else (Inl e, result, w1))"

text \<open>The \<^verbatim>\<open>try\<close> in the loop of \<^verbatim>\<open>runDailyFetch\<close>: what it throws, or the two counts.\<close>

definition daily_gateway_try ::
  "string \<Rightarrow> Session \<Rightarrow> string \<Rightarrow> string \<Rightarrow> Gateway \<Rightarrow> world \<Rightarrow>
   (error + nat \<times> nat) \<times> world" where
  "daily_gateway_try timezone s start end gateway w =
     (case getEnergyData s (gwid gateway) start end ''15min'' timezone w of
        (Inl e, w1) \<Rightarrow> (Inl e, w1)
      | (Inr readings, w1) \<Rightarrow>
          if length readings > 0 then
            (case imported_getTimezoneOffsetMs w1 timezone end of
               Inl e \<Rightarrow> (Inl e, w1)
             | Inr offsetMs \<Rightarrow>
                 let midnightToday = map_option (\<lambda>t. t - offsetMs) (js_midnightUTC w1 end);
                     yesterdayReadings =
                       filter (\<lambda>r. js_lt w1 (timestamp r) midnightToday) readings;
                     todayReadings =
                       filter (\<lambda>r. js_ge w1 (timestamp r) midnightToday) readings
                 in
                   (case insertEnergyReadings w1 (gwid gateway) yesterdayReadings
                           [JBool False] of
                      (Inl e, w2) \<Rightarrow> (Inl e, w2)
                    | (Inr yesterdayResult, w2) \<Rightarrow>
                        (case insertEnergyReadings w2 (gwid gateway) todayReadings
                                [JBool True] of
                           (Inl e, w3) \<Rightarrow> (Inl e, w3)
                         | (Inr todayResult, w3) \<Rightarrow>
                             (Inr (inserted yesterdayResult + inserted todayResult,
                                   skipped yesterdayResult + skipped todayResult), w3))))
          else (Inr (0, 0), w1))"

text \<open>The \<^verbatim>\<open>try\<close> in the loop of \<^verbatim>\<open>backfillData\<close>.\<close>

definition backfill_gateway_try ::
  "string \<Rightarrow> bool \<Rightarrow> Session \<Rightarrow> string \<Rightarrow> string \<Rightarrow> Gateway \<Rightarrow> world \<Rightarrow>
   (error + nat \<times> nat) \<times> world" where
  "backfill_gateway_try timezone override s startDate endDate gateway w =
     (case getEnergyData s (gwid gateway) startDate endDate ''15min'' timezone w of
        (Inl e, w1) \<Rightarrow> (Inl e, w1)
      | (Inr readings, w1) \<Rightarrow>
          if length readings > 0 then
            (case insertEnergyReadings w1 (gwid gateway) readings [JBool override] of
               (Inl e, w2) \<Rightarrow> (Inl e, w2)
             | (Inr insertResult, w2) \<Rightarrow>
                 (Inr (inserted insertResult, skipped insertResult), w2))
          else (Inr (0, 0), w1))"

text \<open>
  One turn of the loop over the gateways, for either job: \<open>attempt\<close> is the \<^verbatim>\<open>try\<close>. The
  \<^verbatim>\<open>catch\<close> writes the message into the gateway's slot; the slot is pushed either way.
\<close>

definition gateway_turn ::
  "(Gateway \<Rightarrow> world \<Rightarrow> (error + nat \<times> nat) \<times> world) \<Rightarrow>
   CronResult \<times> world \<Rightarrow> Gateway \<Rightarrow> CronResult \<times> world" where
  "gateway_turn attempt = (\<lambda>(result, w) gateway.
     (case attempt gateway w of
        (Inr (ins, skp), w1) \<Rightarrow>
          (result\<lparr>gateways := gateways result @
             [\<lparr>gw_gwid = gwid gateway, gw_inserted = ins, gw_skipped = skp,
               gw_error = None\<rparr>]\<rparr>, w1)
      | (Inl e, w1) \<Rightarrow>
          (result\<lparr>success := False,
                  gateways := gateways result @
             [\<lparr>gw_gwid = gwid gateway, gw_inserted = 0, gw_skipped = 0,
               gw_error = Some e\<rparr>]\<rparr>, w1)))"

text \<open>
  The outer \<^verbatim>\<open>try\<close> of \<^verbatim>\<open>runDailyFetch\<close>: the exception that left it, if any, with
  \<^verbatim>\<open>result\<close> as it is by then.
\<close>

definition runDailyFetch_try ::
  "string \<Rightarrow> string \<Rightarrow> string \<Rightarrow> CronResult \<Rightarrow> world \<Rightarrow>
   (error option \<times> CronResult) \<times> world" where
  "runDailyFetch_try email password timezone result w =
     (case getValidSession email password w of
        (Inl e, w1) \<Rightarrow> ((Some e, result), w1)
      | (Inr authResult, w1) \<Rightarrow>
          (case list_gateways email password (session authResult)
                  (result\<lparr>loginRefreshed := fresh authResult\<rparr>) w1 of
             (Inl e, result1, w2) \<Rightarrow> ((Some e, result1), w2)
           | (Inr (s, gws), result1, w2) \<Rightarrow>
               if length gws = 0 then
                 ((None, result1\<lparr>error := Some NoGatewaysFound, success := False\<rparr>), w2)
               else
                 (case getYesterdayDateRange w2 timezone of
                    Inl e \<Rightarrow> ((Some e, result1), w2)
                  | Inr (start, end) \<Rightarrow>
                      (case foldl (gateway_turn (daily_gateway_try timezone s start end))
                              (result1, w2) gws of
                         (result2, w3) \<Rightarrow> ((None, result2), w3)))))"

text \<open>The job: the \<^verbatim>\<open>catch\<close> turns an exception into the job's error.\<close>

definition runDailyFetch ::
  "string \<Rightarrow> string \<Rightarrow> string \<Rightarrow> world \<Rightarrow> CronResult \<times> world" where
  "runDailyFetch email password timezone w =
     (case runDailyFetch_try email password timezone
             \<lparr>success = True, gateways = [], error = None, loginRefreshed = False\<rparr> w of
        ((None, result), w1) \<Rightarrow> (result, w1)
      | ((Some e, result), w1) \<Rightarrow> (result\<lparr>success := False, error := Some e\<rparr>, w1))"

definition backfillData_try ::
  "string \<Rightarrow> string \<Rightarrow> string \<Rightarrow> string \<Rightarrow> string \<Rightarrow> bool \<Rightarrow> CronResult \<Rightarrow> world \<Rightarrow>
   (error option \<times> CronResult) \<times> world" where
  "backfillData_try email password startDate endDate timezone override result w =
     (case getValidSession email password w of
        (Inl e, w1) \<Rightarrow> ((Some e, result), w1)
      | (Inr authResult, w1) \<Rightarrow>
          (case list_gateways email password (session authResult)
                  (result\<lparr>loginRefreshed := fresh authResult\<rparr>) w1 of
             (Inl e, result1, w2) \<Rightarrow> ((Some e, result1), w2)
           | (Inr (s, gws), result1, w2) \<Rightarrow>
               if length gws = 0 then
                 ((None, result1\<lparr>error := Some NoGatewaysFound, success := False\<rparr>), w2)
               else
                 (case foldl
                         (gateway_turn
                            (backfill_gateway_try timezone override s startDate endDate))
                         (result1, w2) gws of
                    (result2, w3) \<Rightarrow> ((None, result2), w3))))"

definition backfillData ::
  "string \<Rightarrow> string \<Rightarrow> string \<Rightarrow> string \<Rightarrow> string \<Rightarrow> bool \<Rightarrow> world \<Rightarrow>
   CronResult \<times> world" where
  "backfillData email password startDate endDate timezone override w =
     (case backfillData_try email password startDate endDate timezone override
             \<lparr>success = True, gateways = [], error = None, loginRefreshed = False\<rparr> w of
        ((None, result), w1) \<Rightarrow> (result, w1)
      | ((Some e, result), w1) \<Rightarrow> (result\<lparr>success := False, error := Some e\<rparr>, w1))"

section \<open>Words of the properties\<close>

text \<open>
  These follow the wording of the specification, not the code: the theorems below relate
  them to what the code computes.
\<close>

text \<open>The sixteen metric fields of a reading, each with the column name it is read by.\<close>

definition metric_fields :: "(string \<times> (EnergyReading \<Rightarrow> jsval)) list" where
  "metric_fields =
     [(''total_heat_1'', total_heat_1), (''total_heat_2'', total_heat_2),
      (''total_cool_1'', total_cool_1), (''total_cool_2'', total_cool_2),
      (''total_electric_heat'', total_electric_heat), (''total_fan_only'', total_fan_only),
      (''total_loop_pump'', total_loop_pump),
      (''total_dehumidification'', total_dehumidification),
      (''runtime_heat_1'', runtime_heat_1), (''runtime_heat_2'', runtime_heat_2),
      (''runtime_cool_1'', runtime_cool_1), (''runtime_cool_2'', runtime_cool_2),
      (''runtime_electric_heat'', runtime_electric_heat),
      (''runtime_fan_only'', runtime_fan_only),
      (''runtime_dehumidification'', runtime_dehumidification),
      (''total_power'', total_power)]"

text \<open>
  Every value in the nesting of a value, the value itself first: the elements of an array
  and the property values of an object, and what is nested in them.
\<close>

fun nested :: "jsval \<Rightarrow> jsval list" where
  "nested (JObj kvs) = JObj kvs # concat (map (\<lambda>(key, value). nested value) kvs)"
| "nested (JArr xs) = JArr xs # concat (map nested xs)"
| "nested v = [v]"

text \<open>An object with a string-valued \<^verbatim>\<open>gwid\<close> field.\<close>

fun exposes_gwid :: "jsval \<Rightarrow> bool" where
  "exposes_gwid (JObj kvs) = isString (js_get (JObj kvs) ''gwid'')"
| "exposes_gwid v = False"

text \<open>
  The result slot of a gateway whose fetch-and-insert ended with counts, or with an error.
\<close>

definition slot :: "Gateway \<Rightarrow> error + nat \<times> nat \<Rightarrow> GatewayResult" where
  "slot g r =
     (case r of
        Inr (ins, skp) \<Rightarrow>
          \<lparr>gw_gwid = gwid g, gw_inserted = ins, gw_skipped = skp, gw_error = None\<rparr>
      | Inl e \<Rightarrow> \<lparr>gw_gwid = gwid g, gw_inserted = 0, gw_skipped = 0, gw_error = Some e\<rparr>)"

text \<open>
  One slot for every gateway of a list, in order: each gateway is tried in the world that
  the tries of the gateways before it have left, and gets the slot of what its try came
  to, whatever became of the others.
\<close>

fun slots ::
  "(Gateway \<Rightarrow> world \<Rightarrow> (error + nat \<times> nat) \<times> world) \<Rightarrow> world \<Rightarrow> Gateway list \<Rightarrow>
   GatewayResult list" where
  "slots attempt w [] = []"
| "slots attempt w (g # gs) =
     slot g (fst (attempt g w)) # slots attempt (snd (attempt g w)) gs"

section \<open>Example inputs\<close>

text \<open>The number that a text of decimal digits stands for.\<close>

definition decimal :: "string \<Rightarrow> rat option" where
  "decimal s =
     (if s \<noteq> [] \<and> list_all (\<lambda>c. digit_val c \<noteq> None) s
      then Some (of_nat (foldl (\<lambda>n c. 10 * n + the (digit_val c)) 0 s))
      else None)"

text \<open>
  A world where the vendor does not answer and the tables are empty. Its time zone is eight
  hours behind UTC: the local day 2025-01-02 begins at 1735804800000, which is
  1735776000000 (midnight UTC) plus eight hours. Its database reads a text of decimal
  digits as that number and writes a natural number as its decimal numeral.
\<close>

definition quiet :: world where
  "quiet =
     \<lparr>net = [], sessions = None, energy_readings = (\<lambda>k. None), now = 0,
      js_ToString = (\<lambda>v. []), js_StringToNumber = (\<lambda>s. None),
      js_formatDate =
        (\<lambda>tz ms. Inr (if ms < 1735804800000 then ''2025-01-01'' else ''2025-01-02'')),
      js_formatOffset = (\<lambda>tz d. Inr ''02/01/2025, GMT-08:00''),
      js_midnightUTC = (\<lambda>d. Some 1735776000000),
      sql_number = decimal, sql_text = (\<lambda>n. dec (nat \<lfloor>n\<rfloor>))\<rparr>"

text \<open>A stored session.\<close>

definition session0 :: Session where
  "session0 = \<lparr>sessionId = ''s0'', userKey = ''u0'', createdAt = 1000\<rparr>"

text \<open>The vendor's answer for a dead session: status 200, an error in the body.\<close>

definition dead_session_response :: response where
  "dead_session_response =
     \<lparr>status = 200, set_cookie = None,
      body = Json (JObj [(''err'', JStr ''session expired'')])\<rparr>"

text \<open>A stored session that has expired, and a vendor that answers the login with 200.\<close>

definition login_200 :: world where
  "login_200 =
     quiet\<lparr>net := [Response \<lparr>status = 200, set_cookie = None, body = NotJson ''<html>''\<rparr>],
           sessions := Some session0, now := 100000000\<rparr>"

text \<open>The redirect a successful login gets, with a Set-Cookie header or none.\<close>

definition redirect :: "string option \<Rightarrow> response" where
  "redirect c = \<lparr>status = 302, set_cookie = c, body = NotJson []\<rparr>"

text \<open>A response with two columns and one row that has a single cell.\<close>

definition short_row_response :: jsval where
  "short_row_response =
     JObj [(''columns'', JArr [JStr ''total_heat_1'', JStr ''total_heat_2'']),
           (''index'', JArr [JNum 1000]),
           (''data'', JArr [JArr [JNum 5]])]"

text \<open>An energy response with no \<^verbatim>\<open>data\<close>, and one whose columns are not in the usual order.\<close>

definition no_data_response :: jsval where
  "no_data_response =
     JObj [(''columns'', JArr [JStr ''total_heat_1'']), (''index'', JArr [JNum 1000])]"


text \<open>The reading the code makes of \<open>short_row_response\<close>.\<close>

definition short_row_reading :: EnergyReading where
  "short_row_reading =
     \<lparr>timestamp = JNum 1000, total_heat_1 = JNum 5, total_heat_2 = JNum 0,
      total_cool_1 = JNum 0, total_cool_2 = JNum 0, total_electric_heat = JNum 0,
      total_fan_only = JNum 0, total_loop_pump = JNum 0, total_dehumidification = JNum 0,
      runtime_heat_1 = JNum 0, runtime_heat_2 = JNum 0, runtime_cool_1 = JNum 0,
      runtime_cool_2 = JNum 0, runtime_electric_heat = JNum 0, runtime_fan_only = JNum 0,
      runtime_dehumidification = JNum 0, total_power = JNum 0\<rparr>"

text \<open>A response with two timestamps and a single row.\<close>

definition missing_row_response :: jsval where
  "missing_row_response =
     JObj [(''columns'', JArr [JStr ''total_heat_1'', JStr ''total_heat_2'']),
           (''index'', JArr [JNum 1000, JNum 2000]),
           (''data'', JArr [JArr [JNum 5, JNum 6]])]"

text \<open>A status 200 with a JSON body.\<close>

definition ok_json :: "jsval \<Rightarrow> response" where
  "ok_json d = \<lparr>status = 200, set_cookie = None, body = Json d\<rparr>"

text \<open>
  A location answer with no \<^verbatim>\<open>gateways\<close> array: one gateway under \<^verbatim>\<open>locations\<close>, one
  deeper under \<^verbatim>\<open>sites\<close>.
\<close>

definition nested_gateways_response :: jsval where
  "nested_gateways_response =
     JObj [(''status'', JStr ''ok''),
           (''locations'',
            JArr [JObj [(''gwid'', JStr ''GW1''), (''description'', JStr ''Home'')],
                  JObj [(''sites'',
                         JObj [(''cabin'', JObj [(''gwid'', JStr ''GW2'')])])]])]"

text \<open>A location answer whose \<^verbatim>\<open>gateways\<close> array holds null, with a gateway under \<^verbatim>\<open>site\<close>.\<close>

definition null_gateway_response :: jsval where
  "null_gateway_response =
     JObj [(''gateways'', JArr [JNull]), (''site'', JObj [(''gwid'', JStr ''GW1'')])]"

text \<open>An answer with a status and an empty body.\<close>

definition bare :: "int \<Rightarrow> response" where
  "bare n = \<lparr>status = n, set_cookie = None, body = NotJson []\<rparr>"

text \<open>The vendor's answer to the user call for a live session.\<close>

definition user_response :: response where
  "user_response = ok_json (JObj [(''awlUserKey'', JStr ''u7'')])"



text \<open>A reading with a timestamp, a \<^verbatim>\<open>total_power\<close> and nothing else.\<close>

definition power_reading :: "rat \<Rightarrow> rat \<Rightarrow> EnergyReading" where
  "power_reading ts p =
     \<lparr>timestamp = JNum ts, total_heat_1 = JNum 0, total_heat_2 = JNum 0,
      total_cool_1 = JNum 0, total_cool_2 = JNum 0, total_electric_heat = JNum 0,
      total_fan_only = JNum 0, total_loop_pump = JNum 0, total_dehumidification = JNum 0,
      runtime_heat_1 = JNum 0, runtime_heat_2 = JNum 0, runtime_cool_1 = JNum 0,
      runtime_cool_2 = JNum 0, runtime_electric_heat = JNum 0, runtime_fan_only = JNum 0,
      runtime_dehumidification = JNum 0, total_power = JNum p\<rparr>"

text \<open>
  The vendor's answers on 2025-01-02: two gateways, and for the first a reading of 23:45
  of the day before (power 8) and one of 00:15 of the day (power 2), local time.
\<close>

definition listing_response :: jsval where
  "listing_response =
     JObj [(''gateways'',
            JArr [JObj [(''gwid'', JStr ''GW1''), (''description'', JStr ''Home'')],
                  JObj [(''gwid'', JStr ''GW2'')]])]"

definition energy_response :: jsval where
  "energy_response =
     JObj [(''columns'', JArr [JStr ''total_power'']),
           (''index'', JArr [JNum 1735803900000, JNum 1735805700000]),
           (''data'', JArr [JArr [JNum 8], JArr [JNum 2]])]"

text \<open>
  A job's world on 2025-01-02: no stored session; the login works, the listing gives the
  two gateways, the energy call works for the first and gets a 500 for the second. The
  table already has the two readings of the first gateway, with the powers 7 and 1.
\<close>

definition job_world :: world where
  "job_world =
     quiet\<lparr>net := [Response (redirect (Some ''sessionid=new1; Path=/'')),
                   Response user_response,
                   Response (ok_json listing_response),
                   Response (ok_json energy_response),
                   Response (bare 500)],
           energy_readings :=
             [(JStr ''GW1'', JNum 1735803900000) \<mapsto> power_reading 1735803900000 7,
              (JStr ''GW1'', JNum 1735805700000) \<mapsto> power_reading 1735805700000 1],
           now := 1735840000000\<rparr>"


text \<open>The session the login of \<open>job_world\<close> makes.\<close>

definition session2 :: Session where
  "session2 = \<lparr>sessionId = ''new1'', userKey = ''u7'', createdAt = 1735840000000\<rparr>"

definition gateway1 :: Gateway where
  "gateway1 = \<lparr>gwid = JStr ''GW1'', name = JStr ''Home'', location = JUndefined\<rparr>"

definition gateway2 :: Gateway where
  "gateway2 = \<lparr>gwid = JStr ''GW2'', name = JStr ''GW2'', location = JUndefined\<rparr>"

section \<open>Session expiry\<close>

text \<open>
  C4 (as the code has it). A session is expired exactly when its age, the current time
  less \<^verbatim>\<open>createdAt\<close>, is more than twelve hours (43200000 milliseconds): at twelve hours
  less a millisecond it is not, at exactly twelve hours it is still not, a millisecond
  later it is, and so it is at every greater age.
\<close>

theorem isSessionExpired_boundary:
  "isSessionExpired w s = (now w - createdAt s > 43200000) \<and>
   (now w - createdAt s = SESSION_MAX_AGE_MS - 1 \<longrightarrow> \<not> isSessionExpired w s) \<and>
   (now w - createdAt s = SESSION_MAX_AGE_MS \<longrightarrow> \<not> isSessionExpired w s) \<and>
   (now w - createdAt s = SESSION_MAX_AGE_MS + 1 \<longrightarrow> isSessionExpired w s) \<and>
   (now w - createdAt s > SESSION_MAX_AGE_MS \<longrightarrow> isSessionExpired w s) \<and>
   SESSION_MAX_AGE_MS = 43200000"
  by (simp add: isSessionExpired_def SESSION_MAX_AGE_MS_def)

theorem isSessionExpired_boundary_witness:
  "\<not> isSessionExpired (quiet\<lparr>now := 43200999\<rparr>) session0 \<and>
   \<not> isSessionExpired (quiet\<lparr>now := 43201000\<rparr>) session0 \<and>
   isSessionExpired (quiet\<lparr>now := 43201001\<rparr>) session0 \<and>
   isSessionExpired (quiet\<lparr>now := 99999999\<rparr>) session0"
proof -
  have d: "now (quiet\<lparr>now := 99999999\<rparr>) - createdAt session0 > SESSION_MAX_AGE_MS"
    by (simp add: session0_def SESSION_MAX_AGE_MS_def)
  have a: "now (quiet\<lparr>now := 43200999\<rparr>) - createdAt session0 = SESSION_MAX_AGE_MS - 1"
    by (simp add: session0_def SESSION_MAX_AGE_MS_def)
  have b: "now (quiet\<lparr>now := 43201000\<rparr>) - createdAt session0 = SESSION_MAX_AGE_MS"
    by (simp add: session0_def SESSION_MAX_AGE_MS_def)
  have c: "now (quiet\<lparr>now := 43201001\<rparr>) - createdAt session0 = SESSION_MAX_AGE_MS + 1"
    by (simp add: session0_def SESSION_MAX_AGE_MS_def)
  show ?thesis
    using a b c d isSessionExpired_boundary [of "quiet\<lparr>now := 43200999\<rparr>" session0]
      isSessionExpired_boundary [of "quiet\<lparr>now := 43201000\<rparr>" session0]
      isSessionExpired_boundary [of "quiet\<lparr>now := 43201001\<rparr>" session0]
      isSessionExpired_boundary [of "quiet\<lparr>now := 99999999\<rparr>" session0]
    by blast
qed

text \<open>
  The claim as the spec words it, that a session of exactly twelve hours is expired, fails:
  the session below was created at 1000 and the clock reads 1000 + 43200000.
\<close>

theorem isSessionExpired_at_12h_counterexample:
  "now (quiet\<lparr>now := 43201000\<rparr>) - createdAt session0 = 12 * 60 * 60 * 1000 \<and>
   \<not> isSessionExpired (quiet\<lparr>now := 43201000\<rparr>) session0"
  by (simp add: isSessionExpired_def SESSION_MAX_AGE_MS_def session0_def)

section \<open>Reading properties\<close>

lemma get_prop_eq:
  "get_prop d k = (if d = JNull \<or> d = JUndefined then Inl TypeError else Inr (js_get d k))"
  by (cases d) (simp_all add: js_get_def)

lemma truthy_not_empty_string: "truthy v \<Longrightarrow> v \<noteq> JStr []"
  by (cases v) simp_all

lemma first_truthy_nullish:
  "d = JNull \<or> d = JUndefined \<Longrightarrow> ks \<noteq> [] \<Longrightarrow> first_truthy d ks = Inl TypeError"
  by (induction d ks rule: first_truthy.induct) (auto simp: get_prop_eq)

lemma first_truthy_value:
  "d \<noteq> JNull \<Longrightarrow> d \<noteq> JUndefined \<Longrightarrow>
   \<exists>v. first_truthy d ks = Inr v \<and> (truthy v \<longleftrightarrow> (\<exists>k\<in>set ks. truthy (js_get d k)))"
  by (induction d ks rule: first_truthy.induct) (auto simp: get_prop_eq)

section \<open>Session validation\<close>

text \<open>What the \<^verbatim>\<open>try\<close> of \<^verbatim>\<open>validateSession\<close> does, by the vendor's answer.\<close>

lemma validateSession_try_cases:
  "validateSession_try s w =
     (case net w of
        [] \<Rightarrow> (Inl (FetchFailed []), w)
      | Rejected m # rest \<Rightarrow> (Inl (FetchFailed m), w\<lparr>net := rest\<rparr>)
      | Response r # rest \<Rightarrow>
          (if \<not> ok r then Inr False
           else case body r of
                  NotJson t \<Rightarrow> Inr False
                | Json d \<Rightarrow>
                    if d = JNull \<or> d = JUndefined then Inl TypeError
                    else if truthy (js_get d ''err'') then Inr False
                    else Inr (\<exists>k\<in>set user_key_fields. truthy (js_get d k)),
           w\<lparr>net := rest\<rparr>))"
proof (cases "net w")
  case Nil
  then show ?thesis by (simp add: validateSession_try_def fetch_def)
next
  case (Cons a rest)
  show ?thesis
  proof (cases a)
    case (Rejected m)
    with Cons show ?thesis by (simp add: validateSession_try_def fetch_def)
  next
    case (Response r)
    show ?thesis
    proof (cases "body r")
      case (NotJson t)
      with Cons Response show ?thesis by (simp add: validateSession_try_def fetch_def)
    next
      case (Json d)
      show ?thesis
      proof (cases "d = JNull \<or> d = JUndefined")
        case True
        with Cons Response Json show ?thesis
          by (auto simp: validateSession_try_def fetch_def)
      next
        case False
        then obtain v where v: "first_truthy d user_key_fields = Inr v"
          "truthy v \<longleftrightarrow> (\<exists>k\<in>set user_key_fields. truthy (js_get d k))"
          using first_truthy_value [of d user_key_fields] by blast
        with Cons Response Json False show ?thesis
          by (simp add: validateSession_try_def fetch_def get_prop_eq truthy_not_empty_string)
      qed
    qed
  qed
qed

text \<open>
  C3. \<^verbatim>\<open>validateSession\<close> returns a boolean whatever happens: an exception inside its
  \<^verbatim>\<open>try\<close> becomes \<open>False\<close>. It returns \<open>False\<close> when the probe gets no response (the
  vendor's answers have run out, or the request is rejected), when the status is not an OK
  one, when the body is not JSON, when the body's \<^verbatim>\<open>err\<close> is truthy (so any non-empty
  string), and when none of \<^verbatim>\<open>awlUserKey\<close>, \<^verbatim>\<open>awluserkey\<close>, \<^verbatim>\<open>auk\<close>, \<^verbatim>\<open>id\<close>,
  \<^verbatim>\<open>user_id\<close>, \<^verbatim>\<open>userId\<close> is truthy in the body (so when none is there). In particular
  a status 200 with the body \<^verbatim>\<open>{err: "session expired"}\<close> gives \<open>False\<close>.
\<close>

theorem validateSession_false:
  "(\<forall>e w1. validateSession_try s w = (Inl e, w1) \<longrightarrow> validateSession s w = (False, w1)) \<and>
   (net w = [] \<longrightarrow> \<not> fst (validateSession s w)) \<and>
   (\<forall>m rest. net w = Rejected m # rest \<longrightarrow> \<not> fst (validateSession s w)) \<and>
   (\<forall>r rest. net w = Response r # rest \<longrightarrow> \<not> ok r \<longrightarrow> \<not> fst (validateSession s w)) \<and>
   (\<forall>r rest t. net w = Response r # rest \<longrightarrow> body r = NotJson t \<longrightarrow>
      \<not> fst (validateSession s w)) \<and>
   (\<forall>r rest d. net w = Response r # rest \<longrightarrow> body r = Json d \<longrightarrow>
      truthy (js_get d ''err'') \<longrightarrow> \<not> fst (validateSession s w)) \<and>
   (\<forall>r rest d. net w = Response r # rest \<longrightarrow> body r = Json d \<longrightarrow>
      (\<forall>k\<in>set user_key_fields. \<not> truthy (js_get d k)) \<longrightarrow> \<not> fst (validateSession s w)) \<and>
   \<not> fst (validateSession s
     (w\<lparr>net := Response \<lparr>status = 200, set_cookie = c,
        body = Json (JObj [(''err'', JStr ''session expired'')])\<rparr> # rest\<rparr>))"
  by (auto simp: validateSession_def validateSession_try_cases ok_def js_get_def)

theorem validateSession_false_witness:
  "\<not> fst (validateSession session0 quiet) \<and>
   \<not> fst (validateSession session0 (quiet\<lparr>net := [Rejected ''timeout'']\<rparr>)) \<and>
   \<not> fst (validateSession session0
       (quiet\<lparr>net := [Response \<lparr>status = 500, set_cookie = None,
          body = Json (JObj [(''id'', JNum 7)])\<rparr>]\<rparr>)) \<and>
   \<not> fst (validateSession session0
       (quiet\<lparr>net := [Response \<lparr>status = 200, set_cookie = None,
          body = NotJson ''<html>''\<rparr>]\<rparr>)) \<and>
   \<not> fst (validateSession session0 (quiet\<lparr>net := [Response dead_session_response]\<rparr>)) \<and>
   \<not> fst (validateSession session0
       (quiet\<lparr>net := [Response \<lparr>status = 200, set_cookie = None,
          body = Json (JObj [(''email'', JStr ''a@b'')])\<rparr>]\<rparr>))"
proof -
  have 1: "net quiet = []" by (simp add: quiet_def)
  have 2: "truthy (js_get (JObj [(''err'', JStr ''session expired'')]) ''err'')"
    by (simp add: js_get_def)
  have 3: "\<forall>k\<in>set user_key_fields. \<not> truthy (js_get (JObj [(''email'', JStr ''a@b'')]) k)"
    by (simp add: js_get_def user_key_fields_def)
  show ?thesis
    using 1 2 3 validateSession_false [of session0 quiet]
      validateSession_false [of session0 "quiet\<lparr>net := [Rejected ''timeout'']\<rparr>"]
      validateSession_false [of session0
        "quiet\<lparr>net := [Response \<lparr>status = 500, set_cookie = None,
           body = Json (JObj [(''id'', JNum 7)])\<rparr>]\<rparr>"]
      validateSession_false [of session0
        "quiet\<lparr>net := [Response \<lparr>status = 200, set_cookie = None,
           body = NotJson ''<html>''\<rparr>]\<rparr>"]
      validateSession_false [of session0 "quiet\<lparr>net := [Response dead_session_response]\<rparr>"]
      validateSession_false [of session0
        "quiet\<lparr>net := [Response \<lparr>status = 200, set_cookie = None,
           body = Json (JObj [(''email'', JStr ''a@b'')])\<rparr>]\<rparr>"]
    by (simp add: ok_def dead_session_response_def)
qed

section \<open>Login\<close>

lemma fetch_sessions: "sessions (snd (fetch w)) = sessions w"
  by (simp add: fetch_def split: list.splits outcome.splits)

lemma fetch_cases:
  "fetch w =
     (case net w of
        [] \<Rightarrow> (Inl (FetchFailed []), w)
      | Rejected m # rest \<Rightarrow> (Inl (FetchFailed m), w\<lparr>net := rest\<rparr>)
      | Response r # rest \<Rightarrow> (Inr r, w\<lparr>net := rest\<rparr>))"
  by (simp add: fetch_def)

lemma getUserKey_sessions: "sessions (snd (getUserKey sid w)) = sessions w"
  using fetch_sessions [of w]
  by (auto simp: getUserKey_def split: prod.splits sum.splits body.splits)

lemma getUserKey_errors:
  "getUserKey sid w = (Inl e, w') \<Longrightarrow>
   (\<exists>m. e = FetchFailed m) \<or> (\<exists>n. e = UserInfoStatus n) \<or> (\<exists>t. e = UserInfoNotJson t) \<or>
   e = TypeError \<or> (\<exists>ks. e = UserKeyMissing ks)"
proof -
  have nonempty: "user_key_fields \<noteq> []" by (simp add: user_key_fields_def)
  have ft: "\<And>d x. first_truthy d user_key_fields = Inl x \<Longrightarrow> x = TypeError"
    using first_truthy_nullish [OF _ nonempty] first_truthy_value [of _ user_key_fields]
    by (metis Inl_Inr_False sum.inject(1))
  have jk: "\<And>d x. js_keys d = Inl x \<Longrightarrow> x = TypeError"
    subgoal for d x by (cases d) auto
    done
  assume "getUserKey sid w = (Inl e, w')"
  then show ?thesis
    by (auto simp: getUserKey_def fetch_def dest: ft jk
             split: prod.splits sum.splits body.splits list.splits outcome.splits if_splits)
qed

lemma getUserKey_sessionsD: "getUserKey sid w = (r, w') \<Longrightarrow> sessions w' = sessions w"
  using getUserKey_sessions [of sid w] by simp

lemma fetch_sessionsD: "fetch w = (r, w') \<Longrightarrow> sessions w' = sessions w"
  using fetch_sessions [of w] by simp

lemma login_sessions: "sessions (snd (login email password w)) = sessions w"
  apply (auto simp: login_def split: prod.splits sum.splits option.splits)
   apply (metis fetch_sessionsD getUserKey_sessionsD)+
  done

lemma login_sessionsD: "login email password w = (r, w') \<Longrightarrow> sessions w' = sessions w"
  using login_sessions [of email password w] by simp

lemma validateSession_sessions: "sessions (snd (validateSession s w)) = sessions w"
  by (auto simp: validateSession_def validateSession_try_cases
           split: list.splits outcome.splits body.splits prod.splits sum.splits)

lemma validateSession_sessionsD: "validateSession s w = (r, w') \<Longrightarrow> sessions w' = sessions w"
  using validateSession_sessions [of s w] by simp

lemma getValidSession_failure_sessions:
  "getValidSession email password w = (Inl e, w') \<Longrightarrow> sessions w' = sessions w"
  by (auto simp: getValidSession_def getStoredSession_def Let_def
           dest!: validateSession_sessionsD login_sessionsD
           split: prod.splits sum.splits option.splits if_splits bool.splits)

text \<open>
  C7. \<^verbatim>\<open>login\<close> fails with an error of its own in each case: a status other than 302
  (\<open>LoginStatus\<close>), a missing or empty Set-Cookie header (\<open>LoginNoSetCookie\<close>), a header
  with no match of \<^verbatim>\<open>sessionid=([^;]+)\<close> (\<open>LoginNoSessionId\<close>), and a failure of
  \<^verbatim>\<open>getUserKey\<close>, whose error is passed on and is none of the other three. \<^verbatim>\<open>login\<close>
  never writes the stored session, and when \<^verbatim>\<open>getValidSession\<close> fails the stored session
  is the one there was before.
\<close>

theorem login_failure:
  "(\<forall>r rest. net w = Response r # rest \<longrightarrow> status r \<noteq> 302 \<longrightarrow>
      login email password w = (Inl (LoginStatus (status r)), w\<lparr>net := rest\<rparr>)) \<and>
   (\<forall>r rest. net w = Response r # rest \<longrightarrow> status r = 302 \<longrightarrow>
      (set_cookie r = None \<or> set_cookie r = Some []) \<longrightarrow>
      login email password w = (Inl LoginNoSetCookie, w\<lparr>net := rest\<rparr>)) \<and>
   (\<forall>r rest c. net w = Response r # rest \<longrightarrow> status r = 302 \<longrightarrow>
      set_cookie r = Some c \<longrightarrow> c \<noteq> [] \<longrightarrow> match_sessionid c = None \<longrightarrow>
      login email password w = (Inl (LoginNoSessionId c), w\<lparr>net := rest\<rparr>)) \<and>
   (\<forall>r rest c sid e w2. net w = Response r # rest \<longrightarrow> status r = 302 \<longrightarrow>
      set_cookie r = Some c \<longrightarrow> match_sessionid c = Some sid \<longrightarrow>
      getUserKey sid (w\<lparr>net := rest\<rparr>) = (Inl e, w2) \<longrightarrow>
      login email password w = (Inl e, w2) \<and>
      e \<noteq> LoginNoSetCookie \<and> (\<forall>n. e \<noteq> LoginStatus n) \<and> (\<forall>h. e \<noteq> LoginNoSessionId h)) \<and>
   sessions (snd (login email password w)) = sessions w \<and>
   (\<forall>e w2. getValidSession email password w = (Inl e, w2) \<longrightarrow> sessions w2 = sessions w)"
proof -
  have cookie: "\<And>c sid. match_sessionid c = Some sid \<Longrightarrow> c \<noteq> []"
    by auto
  show ?thesis
    using getValidSession_failure_sessions [of email password w] login_sessions [of email password w]
    by (auto simp: login_def fetch_def dest: getUserKey_errors cookie)
qed

theorem login_failure_witness:
  "login ''e'' ''p'' login_200 = (Inl (LoginStatus 200), login_200\<lparr>net := []\<rparr>) \<and>
   fst (getValidSession ''e'' ''p'' login_200) = Inl (LoginStatus 200) \<and>
   sessions (snd (getValidSession ''e'' ''p'' login_200)) = Some session0 \<and>
   fst (login ''e'' ''p'' (quiet\<lparr>net := [Response (redirect None)]\<rparr>)) = Inl LoginNoSetCookie \<and>
   fst (login ''e'' ''p'' (quiet\<lparr>net := [Response (redirect (Some ''lang=en; Path=/''))]\<rparr>)) =
     Inl (LoginNoSessionId ''lang=en; Path=/'') \<and>
   fst (login ''e'' ''p''
     (quiet\<lparr>net := [Response (redirect (Some ''lang=en; sessionid=abc123; Path=/'')),
        Response \<lparr>status = 500, set_cookie = None, body = NotJson []\<rparr>]\<rparr>)) =
     Inl (UserInfoStatus 500)"
proof -
  let ?r500 = "\<lparr>status = 500, set_cookie = None, body = NotJson []\<rparr>"
  let ?w2 = "quiet\<lparr>net := [Response (redirect None)]\<rparr>"
  let ?w3 = "quiet\<lparr>net := [Response (redirect (Some ''lang=en; Path=/''))]\<rparr>"
  let ?w4 = "quiet\<lparr>net := [Response (redirect (Some ''lang=en; sessionid=abc123; Path=/'')),
        Response ?r500]\<rparr>"
  have a: "getValidSession ''e'' ''p'' login_200 = (Inl (LoginStatus 200), login_200\<lparr>net := []\<rparr>)"
    by (simp add: getValidSession_def getStoredSession_def isSessionExpired_def
        SESSION_MAX_AGE_MS_def login_def fetch_def login_200_def session0_def)
  have b: "match_sessionid ''lang=en; Path=/'' = None" by simp
  have c: "match_sessionid ''lang=en; sessionid=abc123; Path=/'' = Some ''abc123''" by simp
  have d: "getUserKey ''abc123'' (?w4\<lparr>net := [Response ?r500]\<rparr>) =
      (Inl (UserInfoStatus 500), ?w4\<lparr>net := []\<rparr>)"
    by (simp add: getUserKey_def fetch_def ok_def)
  have 1: "login ''e'' ''p'' login_200 = (Inl (LoginStatus 200), login_200\<lparr>net := []\<rparr>)"
    using login_failure [of login_200 "''e''" "''p''", THEN conjunct1, rule_format,
        of "\<lparr>status = 200, set_cookie = None, body = NotJson ''<html>''\<rparr>" "[]"]
    by (simp add: login_200_def)
  have 2: "sessions (login_200\<lparr>net := []\<rparr>) = sessions login_200"
    using login_failure [of login_200 "''e''" "''p''", THEN conjunct2, THEN conjunct2,
        THEN conjunct2, THEN conjunct2, THEN conjunct2, rule_format, OF a] .
  have 3: "login ''e'' ''p'' ?w2 = (Inl LoginNoSetCookie, ?w2\<lparr>net := []\<rparr>)"
    using login_failure [of ?w2 "''e''" "''p''", THEN conjunct2, THEN conjunct1, rule_format,
        of "redirect None" "[]"]
    by (simp add: redirect_def)
  have 4: "login ''e'' ''p'' ?w3 = (Inl (LoginNoSessionId ''lang=en; Path=/''), ?w3\<lparr>net := []\<rparr>)"
    using b login_failure [of ?w3 "''e''" "''p''", THEN conjunct2, THEN conjunct2, THEN conjunct1,
        rule_format, of "redirect (Some ''lang=en; Path=/'')" "[]" "''lang=en; Path=/''"]
    by (simp add: redirect_def)
  have 5: "login ''e'' ''p'' ?w4 = (Inl (UserInfoStatus 500), ?w4\<lparr>net := []\<rparr>)"
    using login_failure [of ?w4 "''e''" "''p''", THEN conjunct2, THEN conjunct2, THEN conjunct2,
        THEN conjunct1, rule_format, THEN conjunct1,
        of "redirect (Some ''lang=en; sessionid=abc123; Path=/'')" "[Response ?r500]"
           "''lang=en; sessionid=abc123; Path=/''" "''abc123''" "UserInfoStatus 500"
           "?w4\<lparr>net := []\<rparr>", OF _ _ _ c d]
    by (simp add: redirect_def)
  show ?thesis
    using a 1 2 3 4 5 by (simp add: login_200_def)
qed

section \<open>Parsing the energy response\<close>





lemma parse_row_timestamp: "timestamp (parse_row cols rows (ts, i)) = ts"
  by (simp add: parse_row_def Let_def)

lemma parse_row_fields:
  "(nm, sel) \<in> set metric_fields \<Longrightarrow>
   sel (parse_row cols rows (ts, i)) = getVal cols (js_or (js_index rows i) (JArr [])) nm"
  unfolding metric_fields_def set_simps insert_iff empty_iff
  by (elim disjE) (simp_all add: parse_row_def Let_def)

lemma parseEnergyResponse_arrays:
  "js_get d ''columns'' = JArr cols \<Longrightarrow> js_get d ''index'' = JArr idx \<Longrightarrow>
   js_get d ''data'' = JArr rows \<Longrightarrow>
   parseEnergyResponse d = Inr (map (parse_row cols (JArr rows)) (zip idx [0..<length idx]))"
  by (cases "d = JNull \<or> d = JUndefined")
     (auto simp: parseEnergyResponse_def get_prop_eq js_get_def [of JNull] js_get_def [of JUndefined])

lemma parseEnergyResponse_not_arrays:
  "d \<noteq> JNull \<Longrightarrow> d \<noteq> JUndefined \<Longrightarrow>
   \<not> (isArray (js_get d ''columns'') \<and> isArray (js_get d ''index'') \<and>
      isArray (js_get d ''data'')) \<Longrightarrow>
   parseEnergyResponse d = Inr []"
  by (auto simp: parseEnergyResponse_def get_prop_eq Let_def)

lemma js_keys_value: "d \<noteq> JNull \<Longrightarrow> d \<noteq> JUndefined \<Longrightarrow> \<exists>ks. js_keys d = Inr ks"
  by (cases d) simp_all








text \<open>
  C10 (as the code has it). When \<^verbatim>\<open>columns\<close>, \<^verbatim>\<open>index\<close> and \<^verbatim>\<open>data\<close> are arrays,
  \<^verbatim>\<open>parseEnergyResponse\<close> returns one reading for each entry of \<^verbatim>\<open>index\<close>, in order and
  with that entry as its timestamp, whatever the length of \<^verbatim>\<open>data\<close>. A row that is missing
  (or null, or otherwise falsy) gives a reading whose metrics are all 0. A row that is an
  array gives, for a metric whose column is at position \<open>i\<close>, the row's cell \<open>i\<close> when the
  row has one and it is not null, and 0 when the row is too short or that cell is null; a
  metric with no column is 0. When one of the three is not an array (and the response is
  not null), there is no reading at all.
\<close>

theorem parseEnergyResponse_rows:
  "(d \<noteq> JNull \<longrightarrow> d \<noteq> JUndefined \<longrightarrow>
      \<not> (isArray (js_get d ''columns'') \<and> isArray (js_get d ''index'') \<and>
         isArray (js_get d ''data'')) \<longrightarrow>
      parseEnergyResponse d = Inr []) \<and>
   (\<forall>cols idx rows. js_get d ''columns'' = JArr cols \<longrightarrow> js_get d ''index'' = JArr idx \<longrightarrow>
      js_get d ''data'' = JArr rows \<longrightarrow>
      (\<exists>rs. parseEnergyResponse d = Inr rs \<and> length rs = length idx \<and>
        (\<forall>k<length idx. timestamp (rs ! k) = idx ! k \<and>
           (\<forall>nm sel. (nm, sel) \<in> set metric_fields \<longrightarrow>
              (\<not> truthy (js_index (JArr rows) k) \<longrightarrow> sel (rs ! k) = JNum 0) \<and>
              (\<forall>cells i. js_index (JArr rows) k = JArr cells \<longrightarrow>
                 colIndex cols (JStr nm) = Some i \<longrightarrow>
                 sel (rs ! k) =
                   (if i < length cells \<and> cells ! i \<noteq> JNull \<and> cells ! i \<noteq> JUndefined
                    then cells ! i else JNum 0)) \<and>
              (colIndex cols (JStr nm) = None \<longrightarrow> sel (rs ! k) = JNum 0)))))"
proof (intro conjI allI impI)
  assume "d \<noteq> JNull" "d \<noteq> JUndefined"
    "\<not> (isArray (js_get d ''columns'') \<and> isArray (js_get d ''index'') \<and>
       isArray (js_get d ''data''))"
  then show "parseEnergyResponse d = Inr []"
    by (rule parseEnergyResponse_not_arrays)
next
  fix cols idx rows
  assume arr: "js_get d ''columns'' = JArr cols" "js_get d ''index'' = JArr idx"
    "js_get d ''data'' = JArr rows"
  let ?rs = "map (parse_row cols (JArr rows)) (zip idx [0..<length idx])"
  have nth: "?rs ! k = parse_row cols (JArr rows) (idx ! k, k)" if "k < length idx" for k
    using that by simp
  have fields: "timestamp (?rs ! k) = idx ! k \<and>
        (\<forall>nm sel. (nm, sel) \<in> set metric_fields \<longrightarrow>
           (\<not> truthy (js_index (JArr rows) k) \<longrightarrow> sel (?rs ! k) = JNum 0) \<and>
           (\<forall>cells i. js_index (JArr rows) k = JArr cells \<longrightarrow>
              colIndex cols (JStr nm) = Some i \<longrightarrow>
              sel (?rs ! k) =
                (if i < length cells \<and> cells ! i \<noteq> JNull \<and> cells ! i \<noteq> JUndefined
                 then cells ! i else JNum 0)) \<and>
           (colIndex cols (JStr nm) = None \<longrightarrow> sel (?rs ! k) = JNum 0))"
    if k: "k < length idx" for k
    unfolding nth [OF k]
    by (auto simp: parse_row_timestamp parse_row_fields js_or_def getVal_def js_coalesce_def
          split: if_splits option.splits)
  from arr have "parseEnergyResponse d = Inr ?rs" by (rule parseEnergyResponse_arrays)
  with fields show "\<exists>rs. parseEnergyResponse d = Inr rs \<and> length rs = length idx \<and>
        (\<forall>k<length idx. timestamp (rs ! k) = idx ! k \<and>
           (\<forall>nm sel. (nm, sel) \<in> set metric_fields \<longrightarrow>
              (\<not> truthy (js_index (JArr rows) k) \<longrightarrow> sel (rs ! k) = JNum 0) \<and>
              (\<forall>cells i. js_index (JArr rows) k = JArr cells \<longrightarrow>
                 colIndex cols (JStr nm) = Some i \<longrightarrow>
                 sel (rs ! k) =
                   (if i < length cells \<and> cells ! i \<noteq> JNull \<and> cells ! i \<noteq> JUndefined
                    then cells ! i else JNum 0)) \<and>
              (colIndex cols (JStr nm) = None \<longrightarrow> sel (rs ! k) = JNum 0)))"
    by (intro exI [of _ ?rs]) simp
qed

theorem parseEnergyResponse_rows_witness:
  "(\<exists>rs. parseEnergyResponse missing_row_response = Inr rs \<and> length rs = 2 \<and>
     timestamp (rs ! 1) = JNum 2000 \<and> total_heat_1 (rs ! 1) = JNum 0 \<and>
     total_heat_2 (rs ! 0) = JNum 6 \<and> total_power (rs ! 0) = JNum 0) \<and>
   parseEnergyResponse no_data_response = Inr []"
proof -
  have "\<not> (isArray (js_get no_data_response ''columns'') \<and>
      isArray (js_get no_data_response ''index'') \<and> isArray (js_get no_data_response ''data''))"
    by (simp add: no_data_response_def js_get_def)
  moreover have "no_data_response \<noteq> JNull" "no_data_response \<noteq> JUndefined"
    by (simp_all add: no_data_response_def)
  ultimately have 0: "parseEnergyResponse no_data_response = Inr []"
    using parseEnergyResponse_rows [of no_data_response, THEN conjunct1] by blast
  let ?cols = "[JStr ''total_heat_1'', JStr ''total_heat_2'']"
  let ?rows = "[JArr [JNum 5, JNum 6]]"
  have arr: "js_get missing_row_response ''columns'' = JArr ?cols"
    "js_get missing_row_response ''index'' = JArr [JNum 1000, JNum 2000]"
    "js_get missing_row_response ''data'' = JArr ?rows"
    by (simp_all add: missing_row_response_def js_get_def)
  have f: "(''total_heat_1'', total_heat_1) \<in> set metric_fields"
    "(''total_heat_2'', total_heat_2) \<in> set metric_fields"
    "(''total_power'', total_power) \<in> set metric_fields"
    by (simp_all add: metric_fields_def)
  have c: "colIndex ?cols (JStr ''total_heat_2'') = Some 1"
    "colIndex ?cols (JStr ''total_power'') = None"
    by (simp_all add: colIndex_def)
  from parseEnergyResponse_rows [of missing_row_response, THEN conjunct2, rule_format, OF arr]
  obtain rs where
    rs: "parseEnergyResponse missing_row_response = Inr rs"
      "length rs = length [JNum 1000, JNum 2000 :: jsval]"
    and each: "\<And>k. k < length [JNum 1000, JNum 2000 :: jsval] \<Longrightarrow>
        timestamp (rs ! k) = [JNum 1000, JNum 2000] ! k \<and>
        (\<forall>nm sel. (nm, sel) \<in> set metric_fields \<longrightarrow>
           (\<not> truthy (js_index (JArr ?rows) k) \<longrightarrow> sel (rs ! k) = JNum 0) \<and>
           (\<forall>cells i. js_index (JArr ?rows) k = JArr cells \<longrightarrow>
              colIndex ?cols (JStr nm) = Some i \<longrightarrow>
              sel (rs ! k) =
                (if i < length cells \<and> cells ! i \<noteq> JNull \<and> cells ! i \<noteq> JUndefined
                 then cells ! i else JNum 0)) \<and>
           (colIndex ?cols (JStr nm) = None \<longrightarrow> sel (rs ! k) = JNum 0))"
    by blast
  have k0: "0 < length [JNum 1000, JNum 2000 :: jsval]"
    and k1: "1 < length [JNum 1000, JNum 2000 :: jsval]"
    by simp_all
  have 1: "timestamp (rs ! 1) = JNum 2000" using each [OF k1] by simp
  have 2: "total_heat_1 (rs ! 1) = JNum 0"
    using each [OF k1, THEN conjunct2, rule_format, OF f(1), THEN conjunct1] by simp
  have 3: "total_heat_2 (rs ! 0) = JNum 6"
    using each [OF k0, THEN conjunct2, rule_format, OF f(2), THEN conjunct2, THEN conjunct1,
        rule_format, of "[JNum 5, JNum 6]" 1] c(1)
    by (simp add: js_coalesce_def)
  have 4: "total_power (rs ! 0) = JNum 0"
    using each [OF k0, THEN conjunct2, rule_format, OF f(3), THEN conjunct2, THEN conjunct2] c(2)
    by simp
  from rs 0 1 2 3 4 show ?thesis by simp
qed

text \<open>
  The claim as worded fails twice. A short row does not give a reading whose metrics are
  all 0: with the columns \<^verbatim>\<open>total_heat_1\<close>, \<^verbatim>\<open>total_heat_2\<close> and the one-cell row
  \<^verbatim>\<open>[5]\<close>, the reading has \<^verbatim>\<open>total_heat_1\<close> = 5. And there is not always one reading for
  each entry of \<^verbatim>\<open>index\<close>: a response with one entry in \<^verbatim>\<open>index\<close> and no \<^verbatim>\<open>data\<close> gives
  no reading.
\<close>

theorem parseEnergyResponse_short_row_counterexample:
  "js_get short_row_response ''columns'' = JArr [JStr ''total_heat_1'', JStr ''total_heat_2''] \<and>
   js_get short_row_response ''data'' = JArr [JArr [JNum 5]] \<and>
   parseEnergyResponse short_row_response = Inr [short_row_reading] \<and>
   total_heat_1 short_row_reading = JNum 5 \<and> JNum 5 \<noteq> JNum 0 \<and>
   js_get no_data_response ''index'' = JArr [JNum 1000] \<and>
   parseEnergyResponse no_data_response = Inr []"
  by (simp add: short_row_response_def short_row_reading_def no_data_response_def
      parseEnergyResponse_def js_get_def parse_row_def getVal_def colIndex_def js_or_def
      js_coalesce_def)

section \<open>Listing the gateways\<close>

lemma findGateways_nested:
  "findGateways d = map found_gateway (filter exposes_gwid (nested d))"
proof (induction d rule: findGateways.induct)
  case (1 kvs)
  have "concat (map (\<lambda>(key, value). findGateways value) kvs) =
      concat (map (\<lambda>(key, value). map found_gateway (filter exposes_gwid (nested value))) kvs)"
    by (rule arg_cong [where f = concat], rule map_cong) (auto simp: 1)
  then show ?case
    by (simp add: filter_concat map_concat comp_def case_prod_unfold)
next
  case (2 xs)
  have "concat (map findGateways xs) =
      concat (map (\<lambda>x. map found_gateway (filter exposes_gwid (nested x))) xs)"
    by (rule arg_cong [where f = concat], rule map_cong) (auto simp: 2)
  then show ?case
    by (simp add: filter_concat map_concat comp_def)
qed simp_all

lemma map_throwing_listed_error: "map_throwing listed_gateway gws = Inl e \<Longrightarrow> e = TypeError"
  by (induction gws arbitrary: e)
     (auto simp: listed_gateway_def get_prop_eq split: sum.splits if_splits)

lemma getGateways_cases:
  "net w = Response r # rest \<Longrightarrow> ok r \<Longrightarrow> body r = Json d \<Longrightarrow>
   getGateways s w =
     (if d = JNull \<or> d = JUndefined then Inl TypeError
      else case js_get d ''gateways'' of
             JArr gws \<Rightarrow> map_throwing listed_gateway gws
           | _ \<Rightarrow> if findGateways d \<noteq> [] then Inr (findGateways d)
                  else Inl (NoGatewaysInData (projr (js_keys d))),
      w\<lparr>net := rest\<rparr>)"
  using js_keys_value [of d]
  by (cases "js_get d ''gateways''") (auto simp: getGateways_def fetch_def)

lemma map_throwing_nullish:
  "JNull \<in> set gws \<or> JUndefined \<in> set gws \<Longrightarrow>
   map_throwing listed_gateway gws = Inl TypeError"
proof (induction gws)
  case Nil
  then show ?case by simp
next
  case (Cons g gws)
  show ?case
  proof (cases "g = JNull \<or> g = JUndefined")
    case True
    then have "listed_gateway g = Inl TypeError"
      by (auto simp: listed_gateway_def)
    then show ?thesis by simp
  next
    case False
    with Cons.prems have "JNull \<in> set gws \<or> JUndefined \<in> set gws" by auto
    then have "map_throwing listed_gateway gws = Inl TypeError" by (rule Cons.IH)
    moreover from False obtain x where "listed_gateway g = Inr x"
      by (auto simp: listed_gateway_def get_prop_eq)
    ultimately show ?thesis by simp
  qed
qed

lemma map_throwing_listed_value:
  "JNull \<notin> set gws \<Longrightarrow> JUndefined \<notin> set gws \<Longrightarrow> \<exists>gs. map_throwing listed_gateway gws = Inr gs"
proof (induction gws)
  case Nil
  then show ?case by simp
next
  case (Cons g gws)
  then obtain gs where "map_throwing listed_gateway gws = Inr gs" by auto
  moreover from Cons.prems obtain x where "listed_gateway g = Inr x"
    by (auto simp: listed_gateway_def get_prop_eq)
  ultimately show ?case by simp
qed

text \<open>
  C9 (as the code has it). \<^verbatim>\<open>findGateways\<close> collects, in the order of the search, one
  gateway for each object with a string \<^verbatim>\<open>gwid\<close> anywhere in the nesting of the body.
  When the vendor answers with an OK status and a JSON body that has no \<^verbatim>\<open>gateways\<close>
  array, \<^verbatim>\<open>getGateways\<close> returns exactly these gateways if there is one, and throws (not
  an AuthError) if there is none. Its \<^verbatim>\<open>No gateways found in location data\<close> error is
  thrown exactly when the body is not null and has neither a \<^verbatim>\<open>gateways\<close> array nor a
  nested object with a string \<^verbatim>\<open>gwid\<close>. The only other error on such an answer is a
  TypeError, thrown exactly when the body is null or the \<^verbatim>\<open>gateways\<close> array has a null
  element, whatever else the body holds.
\<close>

theorem getGateways_fallback:
  "net w = Response r # rest \<Longrightarrow> ok r \<Longrightarrow> body r = Json d \<Longrightarrow>
   findGateways d = map found_gateway (filter exposes_gwid (nested d)) \<and>
   (\<not> isArray (js_get d ''gateways'') \<longrightarrow> filter exposes_gwid (nested d) \<noteq> [] \<longrightarrow>
      getGateways s w =
        (Inr (map found_gateway (filter exposes_gwid (nested d))), w\<lparr>net := rest\<rparr>)) \<and>
   (\<not> isArray (js_get d ''gateways'') \<longrightarrow> filter exposes_gwid (nested d) = [] \<longrightarrow>
      (\<exists>e. getGateways s w = (Inl e, w\<lparr>net := rest\<rparr>) \<and> e \<noteq> AuthError)) \<and>
   ((\<exists>ks. fst (getGateways s w) = Inl (NoGatewaysInData ks)) \<longleftrightarrow>
      d \<noteq> JNull \<and> d \<noteq> JUndefined \<and> \<not> isArray (js_get d ''gateways'') \<and>
      filter exposes_gwid (nested d) = []) \<and>
   (fst (getGateways s w) = Inl TypeError \<longleftrightarrow>
      d = JNull \<or> d = JUndefined \<or>
      (\<exists>gws. js_get d ''gateways'' = JArr gws \<and> (JNull \<in> set gws \<or> JUndefined \<in> set gws))) \<and>
   (\<forall>e. fst (getGateways s w) = Inl e \<longrightarrow> e = TypeError \<or> (\<exists>ks. e = NoGatewaysInData ks))"
proof -
  assume a: "net w = Response r # rest" "ok r" "body r = Json d"
  note run = getGateways_cases [OF a, of s]
  have nn: "filter exposes_gwid (nested d) \<noteq> [] \<Longrightarrow> d \<noteq> JNull \<and> d \<noteq> JUndefined"
    by (cases d) auto
  have 1: "\<not> isArray (js_get d ''gateways'') \<Longrightarrow> filter exposes_gwid (nested d) \<noteq> [] \<Longrightarrow>
      getGateways s w =
        (Inr (map found_gateway (filter exposes_gwid (nested d))), w\<lparr>net := rest\<rparr>)"
    using nn by (cases "js_get d ''gateways''") (auto simp: run findGateways_nested)
  have 2: "\<not> isArray (js_get d ''gateways'') \<Longrightarrow> filter exposes_gwid (nested d) = [] \<Longrightarrow>
      \<exists>e. getGateways s w = (Inl e, w\<lparr>net := rest\<rparr>) \<and> e \<noteq> AuthError"
    by (cases "js_get d ''gateways''") (auto simp: run findGateways_nested)
  have 3: "(\<exists>ks. fst (getGateways s w) = Inl (NoGatewaysInData ks)) \<longleftrightarrow>
      d \<noteq> JNull \<and> d \<noteq> JUndefined \<and> \<not> isArray (js_get d ''gateways'') \<and>
      filter exposes_gwid (nested d) = []"
    by (cases "js_get d ''gateways''")
       (auto simp: run findGateways_nested dest: map_throwing_listed_error)
  have 4: "fst (getGateways s w) = Inl TypeError \<longleftrightarrow>
      d = JNull \<or> d = JUndefined \<or>
      (\<exists>gws. js_get d ''gateways'' = JArr gws \<and> (JNull \<in> set gws \<or> JUndefined \<in> set gws))"
  proof (cases "d = JNull \<or> d = JUndefined")
    case True
    then show ?thesis by (auto simp: run)
  next
    case False
    show ?thesis
    proof (cases "js_get d ''gateways''")
      case (JArr gws)
      show ?thesis
      proof (cases "JNull \<in> set gws \<or> JUndefined \<in> set gws")
        case True
        with False JArr show ?thesis by (simp add: run map_throwing_nullish)
      next
        case no: False
        then obtain gs where "map_throwing listed_gateway gws = Inr gs"
          using map_throwing_listed_value [of gws] by auto
        with False JArr no show ?thesis by (simp add: run)
      qed
    qed (use False in \<open>auto simp: run\<close>)
  qed
  have 5: "\<forall>e. fst (getGateways s w) = Inl e \<longrightarrow> e = TypeError \<or> (\<exists>ks. e = NoGatewaysInData ks)"
    by (cases "js_get d ''gateways''")
       (auto simp: run dest: map_throwing_listed_error split: if_splits)
  from 1 2 3 4 5 show ?thesis by (simp add: findGateways_nested)
qed

theorem getGateways_fallback_witness:
  "getGateways session0 (quiet\<lparr>net := [Response (ok_json nested_gateways_response)]\<rparr>) =
     (Inr [\<lparr>gwid = JStr ''GW1'', name = JStr ''Home'', location = JUndefined\<rparr>,
           \<lparr>gwid = JStr ''GW2'', name = JStr ''GW2'', location = JUndefined\<rparr>],
      quiet\<lparr>net := []\<rparr>) \<and>
   fst (getGateways session0
     (quiet\<lparr>net := [Response (ok_json (JObj [(''status'', JStr ''ok'')]))]\<rparr>)) =
     Inl (NoGatewaysInData [''status'']) \<and>
   fst (getGateways session0 (quiet\<lparr>net := [Response (ok_json null_gateway_response)]\<rparr>)) =
     Inl TypeError"
proof -
  let ?w1 = "quiet\<lparr>net := [Response (ok_json nested_gateways_response)]\<rparr>"
  let ?d2 = "JObj [(''status'', JStr ''ok'')]"
  let ?w2 = "quiet\<lparr>net := [Response (ok_json ?d2)]\<rparr>"
  let ?w3 = "quiet\<lparr>net := [Response (ok_json null_gateway_response)]\<rparr>"
  have ok: "ok (ok_json d)" for d by (simp add: ok_json_def ok_def)
  have body: "body (ok_json d) = Json d" for d by (simp add: ok_json_def)
  have n1: "net ?w1 = Response (ok_json nested_gateways_response) # []" by simp
  have n2: "net ?w2 = Response (ok_json ?d2) # []" by simp
  have n3: "net ?w3 = Response (ok_json null_gateway_response) # []" by simp
  have g1: "\<not> isArray (js_get nested_gateways_response ''gateways'')"
    by (simp add: nested_gateways_response_def js_get_def)
  have m1: "map found_gateway (filter exposes_gwid (nested nested_gateways_response)) =
      [\<lparr>gwid = JStr ''GW1'', name = JStr ''Home'', location = JUndefined\<rparr>,
       \<lparr>gwid = JStr ''GW2'', name = JStr ''GW2'', location = JUndefined\<rparr>]"
    by (simp add: nested_gateways_response_def js_get_def found_gateway_def js_or_def)
  have 1: "getGateways session0 ?w1 =
      (Inr (map found_gateway (filter exposes_gwid (nested nested_gateways_response))),
       ?w1\<lparr>net := []\<rparr>)"
    using getGateways_fallback [OF n1 ok body, of session0, THEN conjunct2, THEN conjunct1,
        rule_format, OF g1] m1
    by auto
  have "\<exists>ks. fst (getGateways session0 ?w2) = Inl (NoGatewaysInData ks)"
    using getGateways_fallback [OF n2 ok body, of session0, THEN conjunct2, THEN conjunct2,
        THEN conjunct2, THEN conjunct1]
    by (simp add: js_get_def)
  then have 2: "fst (getGateways session0 ?w2) = Inl (NoGatewaysInData [''status''])"
    by (auto simp: getGateways_def fetch_def ok_json_def ok_def js_get_def split: if_splits)
  have g3: "js_get null_gateway_response ''gateways'' = JArr [JNull]"
    by (simp add: null_gateway_response_def js_get_def)
  have 3: "fst (getGateways session0 ?w3) = Inl TypeError"
    using getGateways_fallback [OF n3 ok body, of session0, THEN conjunct2, THEN conjunct2,
        THEN conjunct2, THEN conjunct2, THEN conjunct1] g3
    by simp
  from 1 2 3 m1 show ?thesis by simp
qed

text \<open>
  The claim as worded, that \<^verbatim>\<open>getGateways\<close> throws only when the body has neither a
  \<^verbatim>\<open>gateways\<close> array nor a nested object with a \<^verbatim>\<open>gwid\<close>, fails: the body below has
  both, and \<^verbatim>\<open>getGateways\<close> throws a TypeError, from \<^verbatim>\<open>gw.gwid\<close> on the null element.
\<close>

theorem getGateways_null_element_counterexample:
  "isArray (js_get null_gateway_response ''gateways'') \<and>
   filter exposes_gwid (nested null_gateway_response) =
     [JObj [(''gwid'', JStr ''GW1'')]] \<and>
   getGateways session0 (quiet\<lparr>net := [Response (ok_json null_gateway_response)]\<rparr>) =
     (Inl TypeError, quiet\<lparr>net := []\<rparr>)"
  by (simp add: null_gateway_response_def js_get_def getGateways_def fetch_def ok_json_def
      ok_def listed_gateway_def)

section \<open>The example day\<close>


lemma job_world_session:
  "getValidSession ''e'' ''p'' job_world =
     (Inr \<lparr>session = session2, fresh = True\<rparr>,
      job_world\<lparr>net := [Response (ok_json listing_response),
                   Response (ok_json energy_response), Response (bare 500)],
                sessions := Some session2\<rparr>)"
  by (simp add: getValidSession_def getStoredSession_def login_def getUserKey_def fetch_def
      storeSession_def redirect_def user_response_def ok_json_def ok_def user_key_fields_def
      js_String_def session2_def job_world_def quiet_def)


lemma job_world_listing:
  "getGateways s
     (job_world\<lparr>net := Response (ok_json listing_response) # later, sessions := x\<rparr>) =
     (Inr [gateway1, gateway2], job_world\<lparr>net := later, sessions := x\<rparr>)"
  by (simp add: getGateways_def fetch_def ok_json_def ok_def listing_response_def js_get_def
      listed_gateway_def js_or_def gateway1_def gateway2_def)

lemma job_world_range:
  "getYesterdayDateRange (job_world\<lparr>net := n, sessions := x\<rparr>) tz =
     Inr (''2025-01-01'', ''2025-01-02'')"
  by (simp add: getYesterdayDateRange_def job_world_def quiet_def)

lemma job_world_energy:
  "getEnergyData s gw a b f tz
     (job_world\<lparr>net := Response (ok_json energy_response) # later, sessions := x\<rparr>) =
     (Inr [power_reading 1735803900000 8, power_reading 1735805700000 2],
      job_world\<lparr>net := later, sessions := x\<rparr>)"
  by (simp add: getEnergyData_def fetch_def ok_json_def ok_def energy_response_def
      parseEnergyResponse_def js_get_def parse_row_def getVal_def colIndex_def js_or_def
      js_coalesce_def power_reading_def)


lemma job_world_refused:
  "getEnergyData s gw a b f tz
     (job_world\<lparr>net := Response (bare 500) # later, sessions := x\<rparr>) =
     (Inl (EnergyStatus 500), job_world\<lparr>net := later, sessions := x\<rparr>)"
  by (simp add: getEnergyData_def fetch_def bare_def ok_def)

lemma job_world_fields:
  "energy_readings job_world =
     [(JStr ''GW1'', JNum 1735803900000) \<mapsto> power_reading 1735803900000 7,
      (JStr ''GW1'', JNum 1735805700000) \<mapsto> power_reading 1735805700000 1]"
  "js_formatOffset job_world tz d = Inr ''02/01/2025, GMT-08:00''"
  "js_midnightUTC job_world d = Some 1735776000000"
  "sql_number job_world = decimal"
  by (simp_all add: job_world_def quiet_def)

lemma gateway_gwids: "gwid gateway1 = JStr ''GW1''" "gwid gateway2 = JStr ''GW2''"
  by (simp_all add: gateway1_def gateway2_def)

lemma job_world_fetched:
  "fst (getEnergyData s gw a b f tz (job_world\<lparr>net := [Response (ok_json energy_response)]\<rparr>)) =
     Inr [power_reading 1735803900000 8, power_reading 1735805700000 2]"
  by (simp add: getEnergyData_def fetch_def ok_json_def ok_def energy_response_def
      parseEnergyResponse_def js_get_def parse_row_def getVal_def colIndex_def js_or_def
      js_coalesce_def power_reading_def)

section \<open>The daily job: one turn of the loop\<close>

text \<open>
  What the \<^verbatim>\<open>try\<close> in the loop of \<^verbatim>\<open>runDailyFetch\<close> comes to: with no reading it ends with
  the counts 0 and 0; with a reading it throws at the call of \<^verbatim>\<open>getTimezoneOffsetMs\<close>,
  before any insert.
\<close>

lemma daily_gateway_try_cases:
  "daily_gateway_try tz s start end g w =
     (case getEnergyData s (gwid g) start end ''15min'' tz w of
        (Inl e, w1) \<Rightarrow> (Inl e, w1)
      | (Inr rs, w1) \<Rightarrow> (if rs = [] then Inr (0, 0) else Inl TypeError, w1))"
  by (simp add: daily_gateway_try_def imported_getTimezoneOffsetMs_def
           split: prod.splits sum.splits)







lemma job_world_try1:
  "daily_gateway_try tz s ''2025-01-01'' ''2025-01-02'' g
     (job_world\<lparr>net := Response (ok_json energy_response) # later, sessions := x\<rparr>) =
     (Inl TypeError, job_world\<lparr>net := later, sessions := x\<rparr>)"
  by (simp add: daily_gateway_try_cases job_world_energy)

lemma job_world_try2:
  "daily_gateway_try tz s ''2025-01-01'' ''2025-01-02'' g
     (job_world\<lparr>net := Response (bare 500) # later, sessions := x\<rparr>) =
     (Inl (EnergyStatus 500), job_world\<lparr>net := later, sessions := x\<rparr>)"
  by (simp add: daily_gateway_try_cases job_world_refused)


section \<open>The daily job: listing the gateways\<close>







section \<open>The daily job: one gateway after another\<close>

lemma gateway_turn_fields:
  "success (fst (gateway_turn attempt rw g)) =
     (success (fst rw) \<and> gw_error (slot g (fst (attempt g (snd rw)))) = None)"
  "gateways (fst (gateway_turn attempt rw g)) =
     gateways (fst rw) @ [slot g (fst (attempt g (snd rw)))]"
  "error (fst (gateway_turn attempt rw g)) = error (fst rw)"
  "loginRefreshed (fst (gateway_turn attempt rw g)) = loginRefreshed (fst rw)"
  "snd (gateway_turn attempt rw g) = snd (attempt g (snd rw))"
  by (cases rw; auto simp: gateway_turn_def slot_def split: prod.splits sum.splits)+

lemma gateway_loop_fields:
  "success (fst (foldl (gateway_turn attempt) rw gws)) =
     (success (fst rw) \<and> list_all (\<lambda>x. gw_error x = None) (slots attempt (snd rw) gws))"
  "gateways (fst (foldl (gateway_turn attempt) rw gws)) =
     gateways (fst rw) @ slots attempt (snd rw) gws"
  "error (fst (foldl (gateway_turn attempt) rw gws)) = error (fst rw)"
  "loginRefreshed (fst (foldl (gateway_turn attempt) rw gws)) = loginRefreshed (fst rw)"
  by (induction gws arbitrary: rw; auto simp: gateway_turn_fields)+




lemma list_gateways_result:
  "list_gateways email password s result w = (r, result1, w1) \<Longrightarrow>
   success result1 = success result \<and> gateways result1 = gateways result \<and>
   error result1 = error result"
  by (auto simp: list_gateways_def Let_def split: prod.splits sum.splits if_splits)




section \<open>The readings table\<close>

lemma insert_or_ignore_keeps:
  "tab k = Some old \<Longrightarrow> snd (insert_or_ignore w vs tab) k = Some old"
  by (auto simp: insert_or_ignore_def split: option.splits prod.splits)

lemma batch_Cons:
  "fst (batch w (vs # sts) tab) =
     fst (insert_or_ignore w vs tab) # fst (batch w sts (snd (insert_or_ignore w vs tab)))"
  "snd (batch w (vs # sts) tab) = snd (batch w sts (snd (insert_or_ignore w vs tab)))"
  by (simp_all split: prod.splits)

lemma batch_keeps: "tab k = Some old \<Longrightarrow> snd (batch w sts tab) k = Some old"
  by (induction sts arbitrary: tab)
     (simp_all add: batch_Cons insert_or_ignore_keeps del: batch.simps(2))

lemma insertEnergyReadings_keeps:
  "energy_readings w k = Some old \<Longrightarrow>
   energy_readings (snd (insertEnergyReadings w g rs surplus)) k = Some old"
proof -
  assume a: "energy_readings w k = Some old"
  have "snd (batch w sts (energy_readings w)) k = Some old" for sts
    using a by (rule batch_keeps)
  then have "batch w sts (energy_readings w) = (results, tab) \<Longrightarrow> tab k = Some old"
    for sts results tab
    by (metis snd_conv)
  with a show ?thesis
    by (auto simp: insertEnergyReadings_def Let_def split: prod.splits sum.splits)
qed

lemma insertEnergyReadings_surplus:
  "insertEnergyReadings w g rs surplus = insertEnergyReadings w g rs []"
  by (simp add: insertEnergyReadings_def)

lemma fetch_energy_readings: "fetch w = (r, w1) \<Longrightarrow> energy_readings w1 = energy_readings w"
  by (auto simp: fetch_def split: list.splits outcome.splits)

lemma getEnergyData_energy_readings:
  "getEnergyData s gw a b f tz w = (r, w1) \<Longrightarrow> energy_readings w1 = energy_readings w"
  by (auto simp: getEnergyData_def dest: fetch_energy_readings
           split: prod.splits sum.splits body.splits if_splits)

lemma daily_gateway_try_energy_readings:
  "energy_readings (snd (daily_gateway_try tz s start end g w)) = energy_readings w"
  by (auto simp: daily_gateway_try_cases dest: getEnergyData_energy_readings
           split: prod.splits sum.splits)

lemma insertEnergyReadings_keepsD:
  "insertEnergyReadings w g rs surplus = (r, w1) \<Longrightarrow> energy_readings w k = Some old \<Longrightarrow>
   energy_readings w1 k = Some old"
  using insertEnergyReadings_keeps [of w k old g rs surplus] by simp

lemma backfill_gateway_try_keeps:
  "energy_readings w k = Some old \<Longrightarrow>
   energy_readings (snd (backfill_gateway_try tz override s startDate endDate g w)) k = Some old"
  apply (auto simp: backfill_gateway_try_def Let_def
           dest!: getEnergyData_energy_readings
           split: prod.splits sum.splits)
   apply (metis insertEnergyReadings_keepsD)+
  done

lemma getUserKey_energy_readings:
  "getUserKey sid w = (r, w1) \<Longrightarrow> energy_readings w1 = energy_readings w"
  by (auto simp: getUserKey_def dest: fetch_energy_readings
           split: prod.splits sum.splits body.splits if_splits)

lemma login_energy_readings:
  "login email password w = (r, w1) \<Longrightarrow> energy_readings w1 = energy_readings w"
  apply (auto simp: login_def split: prod.splits sum.splits option.splits if_splits)
      apply (metis fetch_energy_readings getUserKey_energy_readings)+
  done

lemma validateSession_energy_readings:
  "validateSession s w = (r, w1) \<Longrightarrow> energy_readings w1 = energy_readings w"
  by (auto simp: validateSession_def validateSession_try_cases
           split: list.splits outcome.splits body.splits prod.splits sum.splits if_splits)

lemma getValidSession_energy_readings:
  "getValidSession email password w = (r, w1) \<Longrightarrow> energy_readings w1 = energy_readings w"
  apply (auto simp: getValidSession_def getStoredSession_def storeSession_def Let_def
           split: prod.splits sum.splits option.splits if_splits bool.splits)
  apply (metis validateSession_energy_readings login_energy_readings)+
  done

lemma getGateways_energy_readings:
  "getGateways s w = (r, w1) \<Longrightarrow> energy_readings w1 = energy_readings w"
  by (auto simp: getGateways_def dest: fetch_energy_readings
           split: prod.splits sum.splits body.splits if_splits jsval.splits)

lemma storeSession_energy_readings: "energy_readings (storeSession w s) = energy_readings w"
  by (simp add: storeSession_def)

lemma list_gateways_energy_readings:
  assumes "list_gateways email password s result w = (r, result1, w1)"
  shows "energy_readings w1 = energy_readings w"
proof -
  obtain r0 w0 where g0: "getGateways s w = (r0, w0)" by (cases "getGateways s w")
  then have e0: "energy_readings w0 = energy_readings w" by (rule getGateways_energy_readings)
  show ?thesis
  proof (cases "r0 = Inl AuthError")
    case False
    with assms g0 e0 show ?thesis
      by (cases r0) (auto simp: list_gateways_def)
  next
    case True
    obtain r2 w2 where l: "login email password w0 = (r2, w2)"
      by (cases "login email password w0")
    then have e2: "energy_readings w2 = energy_readings w0" by (rule login_energy_readings)
    show ?thesis
    proof (cases r2)
      case (Inl e)
      with assms g0 True l e0 e2 show ?thesis by (simp add: list_gateways_def)
    next
      case (Inr s2)
      obtain r4 w4 where g4: "getGateways s2 (storeSession w2 s2) = (r4, w4)"
        by (cases "getGateways s2 (storeSession w2 s2)")
      then have "energy_readings w4 = energy_readings (storeSession w2 s2)"
        by (rule getGateways_energy_readings)
      with e0 e2 have "energy_readings w4 = energy_readings w"
        by (simp add: storeSession_energy_readings)
      with assms g0 True l Inr g4 show ?thesis
        by (cases r4) (auto simp: list_gateways_def Let_def)
    qed
  qed
qed

lemma daily_loop_energy_readings:
  "energy_readings (snd (foldl (gateway_turn (daily_gateway_try tz s start end)) rw gws)) =
     energy_readings (snd rw)"
  by (induction gws arbitrary: rw)
     (simp_all add: gateway_turn_fields daily_gateway_try_energy_readings)

lemma runDailyFetch_try_energy_readings:
  "energy_readings (snd (runDailyFetch_try email password tz result w)) = energy_readings w"
proof -
  obtain r1 w1 where v: "getValidSession email password w = (r1, w1)"
    by (cases "getValidSession email password w")
  then have e1: "energy_readings w1 = energy_readings w"
    by (rule getValidSession_energy_readings)
  show ?thesis
  proof (cases r1)
    case (Inl e)
    with v e1 show ?thesis by (simp add: runDailyFetch_try_def)
  next
    case (Inr a)
    obtain r2 result1 w2 where l: "list_gateways email password (session a)
        (result\<lparr>loginRefreshed := fresh a\<rparr>) w1 = (r2, result1, w2)"
      by (cases "list_gateways email password (session a) (result\<lparr>loginRefreshed := fresh a\<rparr>) w1")
    then have "energy_readings w2 = energy_readings w1"
      by (rule list_gateways_energy_readings)
    with e1 have e2: "energy_readings w2 = energy_readings w" by simp
    show ?thesis
    proof (cases r2)
      case (Inl e)
      with v Inr l e2 show ?thesis by (simp add: runDailyFetch_try_def)
    next
      case r2: (Inr sg)
      obtain s gws where sg: "sg = (s, gws)" by (cases sg)
      have loop: "energy_readings
          (snd (foldl (gateway_turn (daily_gateway_try tz s start end)) (result1, w2) gws)) =
          energy_readings w" for start "end"
        using e2 by (simp add: daily_loop_energy_readings)
      from v Inr l r2 sg e2 loop show ?thesis
        apply (auto simp: runDailyFetch_try_def split: sum.splits prod.splits)
        apply (metis snd_conv)
        done
    qed
  qed
qed

lemma runDailyFetch_energy_readings:
  "energy_readings (snd (runDailyFetch email password tz w)) = energy_readings w"
  using runDailyFetch_try_energy_readings [of email password tz
      "\<lparr>success = True, gateways = [], error = None, loginRefreshed = False\<rparr>" w]
  by (auto simp: runDailyFetch_def split: prod.splits option.splits)

lemma gateway_turn_keeps:
  assumes "\<And>g w. energy_readings w k = Some old \<Longrightarrow>
      energy_readings (snd (attempt g w)) k = Some old"
    and "energy_readings (snd rw) k = Some old"
  shows "energy_readings (snd (gateway_turn attempt rw g)) k = Some old"
  using assms by (simp add: gateway_turn_fields)

lemma gateway_loop_keeps:
  assumes "\<And>g w. energy_readings w k = Some old \<Longrightarrow>
      energy_readings (snd (attempt g w)) k = Some old"
  shows "energy_readings (snd rw) k = Some old \<Longrightarrow>
    energy_readings (snd (foldl (gateway_turn attempt) rw gws)) k = Some old"
  by (induction gws arbitrary: rw) (simp_all add: gateway_turn_keeps [OF assms])

lemma backfillData_try_keeps:
  assumes "energy_readings w k = Some old"
  shows "energy_readings
      (snd (backfillData_try email password startDate endDate tz override result w)) k = Some old"
proof -
  obtain r1 w1 where v: "getValidSession email password w = (r1, w1)"
    by (cases "getValidSession email password w")
  then have e1: "energy_readings w1 = energy_readings w"
    by (rule getValidSession_energy_readings)
  show ?thesis
  proof (cases r1)
    case (Inl e)
    with v e1 assms show ?thesis by (simp add: backfillData_try_def)
  next
    case (Inr a)
    obtain r2 result1 w2 where l: "list_gateways email password (session a)
        (result\<lparr>loginRefreshed := fresh a\<rparr>) w1 = (r2, result1, w2)"
      by (cases "list_gateways email password (session a) (result\<lparr>loginRefreshed := fresh a\<rparr>) w1")
    then have "energy_readings w2 = energy_readings w1"
      by (rule list_gateways_energy_readings)
    with e1 assms have e2: "energy_readings w2 k = Some old" by simp
    show ?thesis
    proof (cases r2)
      case (Inl e)
      with v Inr l e2 show ?thesis by (simp add: backfillData_try_def)
    next
      case r2: (Inr sg)
      obtain s gws where sg: "sg = (s, gws)" by (cases sg)
      have loop: "energy_readings
          (snd (foldl (gateway_turn (backfill_gateway_try tz override s startDate endDate))
             (result1, w2) gws)) k = Some old"
        using e2 by (intro gateway_loop_keeps backfill_gateway_try_keeps) simp_all
      from v Inr l r2 sg e2 loop show ?thesis
        by (auto simp: backfillData_try_def split: sum.splits prod.splits)
    qed
  qed
qed

section \<open>Skip or replace\<close>

lemma job_world_daily:
  "runDailyFetch ''e'' ''p'' tz job_world =
     (\<lparr>success = False,
       gateways =
         [\<lparr>gw_gwid = JStr ''GW1'', gw_inserted = 0, gw_skipped = 0,
            gw_error = Some TypeError\<rparr>,
          \<lparr>gw_gwid = JStr ''GW2'', gw_inserted = 0, gw_skipped = 0,
            gw_error = Some (EnergyStatus 500)\<rparr>],
       error = None, loginRefreshed = True\<rparr>,
      job_world\<lparr>net := [], sessions := Some session2\<rparr>)"
  by (simp add: runDailyFetch_def runDailyFetch_try_def list_gateways_def gateway_turn_def
      job_world_session job_world_listing job_world_range job_world_try1 job_world_try2
      gateway_gwids)

lemma job_world_backfill1:
  "backfill_gateway_try tz override s ''2025-01-01'' ''2025-01-02'' gateway1
     (job_world\<lparr>net := Response (ok_json energy_response) # later, sessions := x\<rparr>) =
     (Inr (0, 2), job_world\<lparr>net := later, sessions := x\<rparr>)"
  by (simp add: backfill_gateway_try_def job_world_energy job_world_fields gateway1_def
      insertEnergyReadings_def bind_reading_def stored_row_def text_column_def
      numeric_column_def insert_or_ignore_def power_reading_def)

lemma job_world_backfill2:
  "backfill_gateway_try tz override s ''2025-01-01'' ''2025-01-02'' gateway2
     (job_world\<lparr>net := Response (bare 500) # later, sessions := x\<rparr>) =
     (Inl (EnergyStatus 500), job_world\<lparr>net := later, sessions := x\<rparr>)"
  by (simp add: backfill_gateway_try_def getEnergyData_def fetch_def bare_def ok_def)

lemma job_world_backfill:
  "backfillData ''e'' ''p'' ''2025-01-01'' ''2025-01-02'' tz override job_world =
     (\<lparr>success = False,
       gateways =
         [\<lparr>gw_gwid = JStr ''GW1'', gw_inserted = 0, gw_skipped = 2, gw_error = None\<rparr>,
          \<lparr>gw_gwid = JStr ''GW2'', gw_inserted = 0, gw_skipped = 0,
            gw_error = Some (EnergyStatus 500)\<rparr>],
       error = None, loginRefreshed = True\<rparr>,
      job_world\<lparr>net := [], sessions := Some session2\<rparr>)"
  by (simp add: backfillData_def backfillData_try_def list_gateways_def gateway_turn_def
      job_world_session job_world_listing job_world_backfill1 job_world_backfill2
      gateway_gwids)

text \<open>
  C1 (what the code does where the claim fails). The daily job runs in \<open>job_world\<close>: the
  offset of the time zone is eight hours, so the boundary is 1735776000000 + 28800000 =
  1735804800000; the table has the reading of 1735805700000 (after the boundary) with
  power 1, and the vendor sends that reading with power 2. The gateway's \<^verbatim>\<open>try\<close> throws a
  TypeError at the call of \<^verbatim>\<open>getTimezoneOffsetMs\<close>, which cron.ts imports and db.ts does
  not export: the slot has the error and the counts 0 and 0, and the table keeps power 1.
  The reading was not replaced. Nor is a reading from before the boundary inserted: with
  an empty table, the reading of 1735803900000 is not in the table after the job.
\<close>

theorem runDailyFetch_today_row_kept:
  "getTimezoneOffsetMs job_world ''America/Los_Angeles'' ''2025-01-02'' = Inr (- 28800000) \<and>
   js_midnightUTC job_world ''2025-01-02'' = Some 1735776000000 \<and>
   imported_getTimezoneOffsetMs job_world ''America/Los_Angeles'' ''2025-01-02'' =
     Inl TypeError \<and>
   energy_readings job_world (JStr ''GW1'', JNum 1735805700000) =
     Some (power_reading 1735805700000 1) \<and>
   fst (getEnergyData session2 (JStr ''GW1'') ''2025-01-01'' ''2025-01-02'' ''15min''
          ''America/Los_Angeles'' (job_world\<lparr>net := [Response (ok_json energy_response)]\<rparr>)) =
     Inr [power_reading 1735803900000 8, power_reading 1735805700000 2] \<and>
   runDailyFetch ''e'' ''p'' ''America/Los_Angeles'' job_world =
     (\<lparr>success = False,
       gateways =
         [\<lparr>gw_gwid = JStr ''GW1'', gw_inserted = 0, gw_skipped = 0,
            gw_error = Some TypeError\<rparr>,
          \<lparr>gw_gwid = JStr ''GW2'', gw_inserted = 0, gw_skipped = 0,
            gw_error = Some (EnergyStatus 500)\<rparr>],
       error = None, loginRefreshed = True\<rparr>,
      job_world\<lparr>net := [], sessions := Some session2\<rparr>) \<and>
   energy_readings (job_world\<lparr>net := [], sessions := Some session2\<rparr>)
       (JStr ''GW1'', JNum 1735805700000) =
     Some (power_reading 1735805700000 1) \<and>
   energy_readings
     (snd (runDailyFetch ''e'' ''p'' ''America/Los_Angeles''
        (job_world\<lparr>energy_readings := Map.empty\<rparr>)))
     (JStr ''GW1'', JNum 1735803900000) = None"
  by (simp add: job_world_daily job_world_fetched job_world_fields getTimezoneOffsetMs_def
      offset_here_def digit_val_def imported_getTimezoneOffsetMs_def
      runDailyFetch_energy_readings)

text \<open>
  C2 (what the code does where the claim fails). The backfill of 2025-01-01 to 2025-01-02
  runs in \<open>job_world\<close> with the override flag true: the table has the two readings of the
  first gateway with the powers 7 and 1, the vendor sends them with the powers 8 and 2.
  The job counts both as skipped and the table keeps 7 and 1: nothing was replaced. (The
  readings are inserted in one batch, with no split at a day boundary, as the claim says.)
\<close>

theorem backfillData_override_rows_kept:
  "energy_readings job_world (JStr ''GW1'', JNum 1735803900000) =
     Some (power_reading 1735803900000 7) \<and>
   energy_readings job_world (JStr ''GW1'', JNum 1735805700000) =
     Some (power_reading 1735805700000 1) \<and>
   fst (getEnergyData session2 (JStr ''GW1'') ''2025-01-01'' ''2025-01-02'' ''15min''
          ''America/Los_Angeles'' (job_world\<lparr>net := [Response (ok_json energy_response)]\<rparr>)) =
     Inr [power_reading 1735803900000 8, power_reading 1735805700000 2] \<and>
   backfillData ''e'' ''p'' ''2025-01-01'' ''2025-01-02'' ''America/Los_Angeles'' True job_world =
     (\<lparr>success = False,
       gateways =
         [\<lparr>gw_gwid = JStr ''GW1'', gw_inserted = 0, gw_skipped = 2, gw_error = None\<rparr>,
          \<lparr>gw_gwid = JStr ''GW2'', gw_inserted = 0, gw_skipped = 0,
            gw_error = Some (EnergyStatus 500)\<rparr>],
       error = None, loginRefreshed = True\<rparr>,
      job_world\<lparr>net := [], sessions := Some session2\<rparr>) \<and>
   energy_readings (job_world\<lparr>net := [], sessions := Some session2\<rparr>)
       (JStr ''GW1'', JNum 1735803900000) =
     Some (power_reading 1735803900000 7) \<and>
   energy_readings (job_world\<lparr>net := [], sessions := Some session2\<rparr>)
       (JStr ''GW1'', JNum 1735805700000) =
     Some (power_reading 1735805700000 1)"
  by (simp add: job_world_backfill job_world_fetched job_world_fields)

section \<open>Rows are never replaced\<close>

text \<open>
  Neither job ever changes a row that is in the readings table: whatever the vendor
  answers, whatever the time zone, the dates and the override flag, a row that is there
  before \<^verbatim>\<open>runDailyFetch\<close> or \<^verbatim>\<open>backfillData\<close> is there unchanged after it.
\<close>

theorem jobs_keep_rows:
  "energy_readings w k = Some old \<Longrightarrow>
   energy_readings (snd (runDailyFetch email password tz w)) k = Some old \<and>
   energy_readings (snd (backfillData email password startDate endDate tz override w)) k =
     Some old"
proof -
  assume a: "energy_readings w k = Some old"
  have 1: "energy_readings (snd (runDailyFetch email password tz w)) k = Some old"
    using a by (simp add: runDailyFetch_energy_readings)
  have 2: "energy_readings (snd (backfillData email password startDate endDate tz override w)) k =
      Some old"
    using backfillData_try_keeps [OF a, of email password startDate endDate tz override
        "\<lparr>success = True, gateways = [], error = None, loginRefreshed = False\<rparr>"]
    by (auto simp: backfillData_def split: prod.splits option.splits)
  from 1 2 show ?thesis by simp
qed

theorem jobs_keep_rows_witness:
  "energy_readings (snd (runDailyFetch ''e'' ''p'' ''America/Los_Angeles'' job_world))
     (JStr ''GW1'', JNum 1735805700000) = Some (power_reading 1735805700000 1) \<and>
   energy_readings
     (snd (backfillData ''e'' ''p'' ''2025-01-01'' ''2025-01-02'' ''America/Los_Angeles'' True
        job_world))
     (JStr ''GW1'', JNum 1735805700000) = Some (power_reading 1735805700000 1)"
proof -
  have "energy_readings job_world (JStr ''GW1'', JNum 1735805700000) =
      Some (power_reading 1735805700000 1)"
    by (simp add: job_world_fields)
  from jobs_keep_rows [OF this] show ?thesis by blast
qed

section \<open>The daily job writes no reading\<close>

text \<open>
  \<^verbatim>\<open>runDailyFetch\<close> leaves the readings table as it finds it, whatever the vendor answers:
  a gateway with no reading has nothing to insert, and for a gateway with a reading the
  \<^verbatim>\<open>try\<close> throws at the call of \<^verbatim>\<open>getTimezoneOffsetMs\<close>, before the inserts. A gateway's
  slot is then never one with counts other than 0 and 0.
\<close>

theorem runDailyFetch_writes_nothing:
  "energy_readings (snd (runDailyFetch email password tz w)) = energy_readings w \<and>
   list_all (\<lambda>x. gw_inserted x = 0 \<and> gw_skipped x = 0)
     (gateways (fst (runDailyFetch email password tz w)))"
proof -
  have slots0: "list_all (\<lambda>x. gw_inserted x = 0 \<and> gw_skipped x = 0)
      (slots (daily_gateway_try tz s start end) w0 gws)" for s start "end" w0 gws
    by (induction gws arbitrary: w0)
       (auto simp: slot_def daily_gateway_try_cases split: sum.splits prod.splits if_splits)
  have loop: "list_all (\<lambda>x. gw_inserted x = 0 \<and> gw_skipped x = 0)
      (gateways (fst (foldl (gateway_turn (daily_gateway_try tz s start end)) (result, w0) gws)))"
    if "gateways result = []" for s start "end" result w0 gws
    using that slots0 by (simp add: gateway_loop_fields)
  then have loopD: "foldl (gateway_turn (daily_gateway_try tz s start end)) (result, w0) gws =
      (result2, w3) \<Longrightarrow> gateways result = [] \<Longrightarrow>
      list_all (\<lambda>x. gw_inserted x = 0 \<and> gw_skipped x = 0) (gateways result2)"
    for s start "end" result w0 gws result2 w3
    by (metis fst_conv)
  have "list_all (\<lambda>x. gw_inserted x = 0 \<and> gw_skipped x = 0)
      (gateways (snd (fst (runDailyFetch_try email password tz
         \<lparr>success = True, gateways = [], error = None, loginRefreshed = False\<rparr> w))))"
    by (auto simp: runDailyFetch_try_def dest!: list_gateways_result dest: loopD
             split: prod.splits sum.splits)
  then have "list_all (\<lambda>x. gw_inserted x = 0 \<and> gw_skipped x = 0)
      (gateways (fst (runDailyFetch email password tz w)))"
    by (auto simp: runDailyFetch_def split: prod.splits option.splits)
  then show ?thesis by (simp add: runDailyFetch_energy_readings)
qed

section \<open>The override flag\<close>

text \<open>
  The override flag of \<^verbatim>\<open>backfillData\<close> changes nothing: the flag only reaches
  \<^verbatim>\<open>insertEnergyReadings\<close>, as an argument that the function does not take. A backfill
  with the flag true returns the same result and leaves the same tables as one with the
  flag false.
\<close>

theorem backfillData_override_no_effect:
  "backfillData email password startDate endDate tz True w =
   backfillData email password startDate endDate tz False w"
proof -
  have flag: "insertEnergyReadings w1 g rs [JBool b] = insertEnergyReadings w1 g rs []"
    for w1 g rs b
    by (rule insertEnergyReadings_surplus)
  have same: "backfill_gateway_try tz True = backfill_gateway_try tz False"
    by (intro ext) (simp add: backfill_gateway_try_def flag split: prod.splits sum.splits)
  show ?thesis
    by (simp only: backfillData_def backfillData_try_def same)
qed

end
